theory Spec2Isabelle
  imports Complex_Main "HOL-Library.Char_ord" "HOL-Library.List_Lexorder"
begin

section \<open>Python values shared by the pipeline\<close>

text \<open>
  Exceptions are values. \<open>RuntimeError\<close> is what the image library raises (decoding a
  series, reading a tag), with the library's message; \<open>KeyError\<close> is a missing
  dictionary or index key; \<open>ZeroDivisionError\<close> is Python's \<open>/\<close> with a zero divisor;
  \<open>IndexError\<close> is positional access outside a sequence; \<open>ModuleNotFoundError\<close> is an
  import of a module that cannot be found, with the module's name.
\<close>

datatype error =
  RuntimeError string | KeyError string | ZeroDivisionError | IndexError
  | ModuleNotFoundError string

text \<open>\<open>str(e)\<close> of an exception: its message (for a KeyError, the quoted key).\<close>

fun str_error :: "error \<Rightarrow> string" where
  "str_error (RuntimeError msg) = msg"
| "str_error (KeyError k) = [CHR 0x27] @ k @ [CHR 0x27]"
| "str_error ZeroDivisionError = ''division by zero''"
| "str_error IndexError = ''single positional indexer is out-of-bounds''"
| "str_error (ModuleNotFoundError name) = ''No module named '' @ [CHR 0x27] @ name @ [CHR 0x27]"

text \<open>\<open>str(n)\<close> of a non-negative Python integer, as an f-string renders a counter.\<close>

definition digit_char :: "nat \<Rightarrow> char" where
  "digit_char d = char_of (48 + d)"

function str_nat :: "nat \<Rightarrow> string" where
  "str_nat n = (if n < 10 then [digit_char n] else str_nat (n div 10) @ [digit_char (n mod 10)])"
  by pat_completeness auto
termination
  by (relation "measure id") auto

declare str_nat.simps [simp del]

text \<open>
  \<open>s.replace(old, new)\<close>: every non-overlapping occurrence of \<open>old\<close>, found from the
  left, is replaced by \<open>new\<close>; an empty \<open>old\<close> matches before every character and at
  the end.
\<close>

function str_replace :: "string \<Rightarrow> string \<Rightarrow> string \<Rightarrow> string" where
  "str_replace old new [] = (if old = [] then new else [])"
| "str_replace old new (c # cs) =
     (if old = [] then new @ c # str_replace old new cs
      else if take (length old) (c # cs) = old
        then new @ str_replace old new (drop (length old) (c # cs))
      else c # str_replace old new cs)"
  by pat_completeness auto
termination
  by (relation "measure (\<lambda>(old, new, s). length s)") auto

section \<open>Run statistics and the summary written to the log\<close>

text \<open>The dictionary \<open>{'processed': 0, 'errors': 0, 'warnings': 0}\<close> of one ingestion run.\<close>

record stats =
  processed :: nat
  errors :: nat
  warnings :: nat

text \<open>
  \<open>a / b\<close> on Python integers raises on a zero divisor; otherwise the quotient is a
  float. What the float arithmetic and the format \<open>:.1f\<close> print for
  \<open>processed / (processed + errors) * 100\<close> is left to the parameter \<open>fmt\<close>, which
  receives numerator and denominator.
\<close>

definition true_div :: "nat \<Rightarrow> nat \<Rightarrow> error + (nat \<times> nat)" where
  "true_div a b = (if b = 0 then Inl ZeroDivisionError else Inr (a, b))"

text \<open>
  \<open>log_processing_summary\<close> (analysis_utils.py). The log file is its text; the file is
  opened for appending, so each \<open>f.write\<close> extends it, and what was written before an
  exception stays in the file. The result pairs the file's text afterwards with
  \<open>Inl\<close> of the exception that left the function, or \<open>Inr ()\<close>.
\<close>

definition log_processing_summary ::
  "(nat \<Rightarrow> nat \<Rightarrow> string) \<Rightarrow> stats \<Rightarrow> string \<Rightarrow> string \<times> (error + unit)" where
  "log_processing_summary fmt st lg =
     (let log1 = lg @ [CHR 0x0A] @ ''=== Processing Summary ==='' @ [CHR 0x0A];
          log2 = log1 @ ''Total processed: '' @ str_nat (processed st) @ [CHR 0x0A];
          log3 = log2 @ ''Total errors: '' @ str_nat (errors st) @ [CHR 0x0A];
          log4 = log3 @ ''Total warnings: '' @ str_nat (warnings st) @ [CHR 0x0A]
      in case true_div (processed st) (processed st + errors st) of
           Inl e \<Rightarrow> (log4, Inl e)
         | Inr (a, b) \<Rightarrow> (log4 @ ''Success rate: '' @ fmt a b @ ''%'' @ [CHR 0x0A], Inr ()))"

section \<open>The operating system and the image library, as parameters\<close>

text \<open>
  \<open>os.path.join(a, b)\<close> on POSIX for two components: an absolute \<open>b\<close> replaces \<open>a\<close>;
  otherwise a separator is inserted unless \<open>a\<close> is empty or already ends in one.
\<close>

definition os_path_join :: "string \<Rightarrow> string \<Rightarrow> string" where
  "os_path_join a b =
     (if b \<noteq> [] \<and> hd b = CHR ''/'' then b
      else if a = [] \<or> last a = CHR ''/'' then a @ b
      else a @ ''/'' @ b)"

text \<open>\<open>s.endswith(suffix)\<close>.\<close>

definition endswith :: "string \<Rightarrow> string \<Rightarrow> bool" where
  "endswith s suffix \<longleftrightarrow>
     length suffix \<le> length s \<and> drop (length s - length suffix) s = suffix"

text \<open>
  What the code asks of the operating system: \<open>os.listdir\<close> (the names of all entries
  of a directory), \<open>os.walk\<close> (the triples root, directory names, file names of a
  tree), \<open>os.path.relpath\<close>, and \<open>pandas.read_excel\<close> on the lookup file, whose rows
  are triples of text cells. The file tree does not change during a run, so a
  directory that was found can be listed.
\<close>

record os_env =
  listdir :: "string \<Rightarrow> string list"
  walk :: "string \<Rightarrow> (string \<times> string list \<times> string list) list"
  relpath :: "string \<Rightarrow> string \<Rightarrow> string"
  read_excel :: "string \<Rightarrow> (string \<times> string \<times> string) list"

text \<open>
  An image of the library: its grid (size, spacing, origin, direction) and its voxel
  buffer, whose type is left open.
\<close>

record 'px image =
  GetSize :: "nat \<times> nat \<times> nat"
  GetSpacing :: "rat \<times> rat \<times> rat"
  GetOrigin :: "rat \<times> rat \<times> rat"
  GetDirection :: "rat list"
  GetPixels :: 'px

text \<open>
  The series reader object: its two switches, the file names set on it and, once a
  series has been read, the tag dictionaries of the slices (\<open>GetMetaData(i, key)\<close>
  returns the value or raises).
\<close>

record reader =
  MetaDataDictionaryArrayUpdate :: bool
  LoadPrivateTags :: bool
  FileNames :: "string list"
  GetMetaData :: "nat \<Rightarrow> string \<Rightarrow> error + string"

datatype interpolator = sitkNearestNeighbor | sitkLinear | sitkBSpline

text \<open>\<open>ResampleImageFilter\<close>: the output grid and the interpolation mode set on it.\<close>

record resample_filter =
  OutputSize :: "nat \<times> nat \<times> nat"
  OutputSpacing :: "rat \<times> rat \<times> rat"
  OutputOrigin :: "rat \<times> rat \<times> rat"
  OutputDirection :: "rat list"
  Interpolator :: interpolator

text \<open>
  The decoder and the resampling primitive are external: \<open>GetGDCMSeriesFileNames\<close>
  lists the slice files of a folder, \<open>ReaderExecute\<close> decodes the files set on a
  reader (returning the image and the reader with its tag dictionaries filled, or
  raising), \<open>ResampleExecute\<close> resamples an image with a configured filter.
\<close>

record 'px sitk =
  GetGDCMSeriesFileNames :: "string \<Rightarrow> string list"
  ReaderExecute :: "reader \<Rightarrow> error + ('px image \<times> reader)"
  ResampleExecute :: "resample_filter \<Rightarrow> 'px image \<Rightarrow> error + 'px image"

text \<open>
  The effects of the ingestion run: the text of the processing log, the lines printed,
  and the number of calls made to \<open>datetime.now()\<close>; the parameter \<open>clock\<close> of the
  functions below gives the formatted time of each call.
\<close>

record world =
  log_text :: string
  stdout :: "string list"
  now_calls :: nat

definition timestamp_now :: "(nat \<Rightarrow> string) \<Rightarrow> world \<Rightarrow> string \<times> world" where
  "timestamp_now clock w = (clock (now_calls w), w\<lparr>now_calls := now_calls w + 1\<rparr>)"

text \<open>Sequencing of a computation that may raise.\<close>

definition and_then :: "error + 'a \<Rightarrow> ('a \<Rightarrow> error + 'b) \<Rightarrow> error + 'b" where
  "and_then m f = (case m of Inl e \<Rightarrow> Inl e | Inr x \<Rightarrow> f x)"

section \<open>Configuration and the metadata table\<close>

text \<open>
  The YAML configuration is read once and only read afterwards; it is a parameter of
  every function that consults it. \<open>series_to_process\<close> is an ordered dictionary
  (required label, output slot name); \<open>dicom_tags\<close> and \<open>paths\<close> are dictionaries
  that hold every key the code asks for.
\<close>

record config =
  series_to_process :: "(string \<times> string) list"
  reference_series :: string
  dicom_tags :: "string \<Rightarrow> string"
  paths :: "string \<Rightarrow> string"

text \<open>
  A configuration is well formed when the keys of \<open>series_to_process\<close> are distinct (it
  is a dictionary) and the reference series is one of them.
\<close>

definition wf_config :: "config \<Rightarrow> bool" where
  "wf_config cfg \<longleftrightarrow>
     distinct (map fst (series_to_process cfg)) \<and>
     reference_series cfg \<in> set (map fst (series_to_process cfg))"

text \<open>
  One row of the metadata table: the dictionary built by
  \<open>extract_metadata_from_reader\<close>, with the source's keys (\<open>size\<close> is \<open>size_vol\<close>
  here). Spacings are floats; every finite float is a rational number.
\<close>

record series_record =
  patient_id :: string
  study_id :: string
  series_id :: string
  scanner_type :: string
  scanner_manufacturer :: string
  scanner_model :: string
  magnetic_field_strength :: string
  series_description :: string
  generic_sequence_label :: string
  num_dicom_files :: nat
  num_loaded_slices :: nat
  size_vol :: "nat \<times> nat \<times> nat"
  pixel_spacing :: "rat \<times> rat \<times> rat"
  folder_path :: string

section \<open>Metadata extraction (metadata\_extraction.py)\<close>

text \<open>
  The lookup table: the data frame indexed by (patient id, series description), read
  as a finite map; its keys are unique. \<open>load_series_descriptions\<close> removes the spaces
  of every description, drops the first data row and sets the index.
\<close>

type_synonym lookup_table = "string \<times> string \<rightharpoonup> string"

definition load_series_descriptions :: "os_env \<Rightarrow> string \<Rightarrow> lookup_table" where
  "load_series_descriptions os series_descriptions_path =
     (let rows = read_excel os series_descriptions_path;
          rows' = map (\<lambda>(p, d, l). (p, str_replace '' '' [] d, l)) rows
      in map_of (map (\<lambda>(p, d, l). ((p, d), l)) (drop 1 rows')))"

text \<open>\<open>series_descriptions.loc[key, 'generic_sequence_label']\<close>: KeyError on a miss.\<close>

definition loc :: "lookup_table \<Rightarrow> string \<times> string \<Rightarrow> error + string" where
  "loc table k = (case table k of None \<Rightarrow> Inl (KeyError (fst k @ '', '' @ snd k)) | Some l \<Rightarrow> Inr l)"

definition warning_line :: "string \<Rightarrow> string \<Rightarrow> string" where
  "warning_line pid descr =
     ''Warning: No generic sequence label found for patient '' @ pid @ '', series '' @ descr"

text \<open>
  \<open>extract_metadata_from_reader\<close>. The two tags are read first; the lookup follows,
  with its \<open>except KeyError\<close>; the remaining tags are read while the dictionary is
  built, in the order of its keys. The lines printed so far are threaded through, since
  the warning is printed before a later tag read may raise.
\<close>

definition extract_metadata_from_reader ::
  "config \<Rightarrow> os_env \<Rightarrow> reader \<Rightarrow> 'px image \<Rightarrow> string \<Rightarrow> lookup_table \<Rightarrow> string
     \<Rightarrow> string list \<Rightarrow> string list \<times> (error + series_record)" where
  "extract_metadata_from_reader cfg os rd img path series_descriptions base_path out =
     (case GetMetaData rd 0 (dicom_tags cfg ''patient_id'') of
        Inl e \<Rightarrow> (out, Inl e)
      | Inr pid \<Rightarrow>
     (case GetMetaData rd 0 (dicom_tags cfg ''series_description'') of
        Inl e \<Rightarrow> (out, Inl e)
      | Inr descr \<Rightarrow>
     (case (case loc series_descriptions (pid, str_replace '' '' [] descr) of
              Inr l \<Rightarrow> (out, Inr l)
            | Inl (KeyError k) \<Rightarrow> (out @ [warning_line pid descr], Inr ''unknown'')
            | Inl e \<Rightarrow> (out, Inl e)) of
        (out', Inl e) \<Rightarrow> (out', Inl e)
      | (out', Inr label) \<Rightarrow>
          (out',
           and_then (GetMetaData rd 0 (dicom_tags cfg ''study_id'')) (\<lambda>study.
           and_then (GetMetaData rd 0 (dicom_tags cfg ''series_id'')) (\<lambda>series.
           and_then (GetMetaData rd 0 (dicom_tags cfg ''scanner_type'')) (\<lambda>stype.
           and_then (GetMetaData rd 0 (dicom_tags cfg ''scanner_manufacturer'')) (\<lambda>manu.
           and_then (GetMetaData rd 0 (dicom_tags cfg ''scanner_model'')) (\<lambda>model.
           and_then (GetMetaData rd 0 (dicom_tags cfg ''magnetic_field_strength'')) (\<lambda>field.
             Inr \<lparr> patient_id = pid,
                   study_id = study,
                   series_id = series,
                   scanner_type = stype,
                   scanner_manufacturer = manu,
                   scanner_model = model,
                   magnetic_field_strength = field,
                   series_description = descr,
                   generic_sequence_label = label,
                   num_dicom_files = length (listdir os path),
                   num_loaded_slices = snd (snd (GetSize img)),
                   size_vol = GetSize img,
                   pixel_spacing = GetSpacing img,
                   folder_path = relpath os path base_path \<rparr>))))))))))"

section \<open>Series loading and the ingestion loop (dicom\_processing.py)\<close>

definition create_dicom_reader :: reader where
  "create_dicom_reader =
     \<lparr> MetaDataDictionaryArrayUpdate = True, LoadPrivateTags = True, FileNames = [],
       GetMetaData = (\<lambda>i key. Inl (RuntimeError ''no series has been read'')) \<rparr>"

text \<open>
  \<open>load_dicom_image_from_folder\<close>: the reader is mutated by the call, so the model
  returns it with the image.
\<close>

definition load_dicom_image_from_folder ::
  "'px sitk \<Rightarrow> reader \<Rightarrow> string \<Rightarrow> error + ('px image \<times> reader)" where
  "load_dicom_image_from_folder lib rd folder =
     (let dicom_names = GetGDCMSeriesFileNames lib folder
      in ReaderExecute lib (rd\<lparr>FileNames := dicom_names\<rparr>))"

text \<open>
  The type of a function that can be imported under the name
  \<open>extract_metadata_from_reader\<close>: it may print and may raise.
\<close>

type_synonym 'px extractor =
  "reader \<Rightarrow> 'px image \<Rightarrow> string \<Rightarrow> lookup_table \<Rightarrow> string
     \<Rightarrow> string list \<Rightarrow> string list \<times> (error + series_record)"

text \<open>
  The modules that Python can find, each with the function it binds to the name
  \<open>extract_metadata_from_reader\<close>. \<open>from m import extract_metadata_from_reader\<close> raises
  ModuleNotFoundError when no module \<open>m\<close> is found.
\<close>

type_synonym 'px modules = "string \<rightharpoonup> 'px extractor"

definition import_from :: "'px modules \<Rightarrow> string \<Rightarrow> error + 'px extractor" where
  "import_from modules name =
     (case modules name of None \<Rightarrow> Inl (ModuleNotFoundError name) | Some f \<Rightarrow> Inr f)"

text \<open>
  The repository defines \<open>extract_metadata_from_reader\<close> in one module,
  \<open>promis_preprocess/metadata_extraction.py\<close>; no file of it is a module
  \<open>metadata_extractor\<close>.
\<close>

definition repository_modules :: "config \<Rightarrow> os_env \<Rightarrow> 'px modules" where
  "repository_modules cfg os =
     [''promis_preprocess.metadata_extraction'' \<mapsto> extract_metadata_from_reader cfg os]"

definition warning_log_line :: "string \<Rightarrow> string \<Rightarrow> nat \<Rightarrow> nat \<Rightarrow> string" where
  "warning_log_line ts path num_files num_slices =
     ''['' @ ts @ ''] WARNING: '' @ path @ '' contains '' @ str_nat num_files
       @ '' DICOM files, but loaded series has '' @ str_nat num_slices @ '' slices'' @ [CHR 0x0A]"

definition error_log_line :: "string \<Rightarrow> string \<Rightarrow> error \<Rightarrow> string" where
  "error_log_line ts path e =
     ''['' @ ts @ ''] ERROR: '' @ path @ '': '' @ str_error e @ [CHR 0x0A]"

text \<open>The \<open>except Exception\<close> handler of \<open>process_dicom_series\<close>.\<close>

definition handle_exception ::
  "(nat \<Rightarrow> string) \<Rightarrow> string \<Rightarrow> error \<Rightarrow> world
     \<Rightarrow> (series_record option \<times> string option) \<times> world" where
  "handle_exception clock path e w =
     (let (ts, w1) = timestamp_now clock w
      in ((None, Some (str_error e)),
          w1\<lparr>log_text := log_text w1 @ error_log_line ts path e\<rparr>))"

text \<open>
  Lines 35 to 58 of \<open>process_dicom_series\<close>, with the imported function: the reader
  is created and everything else is inside the \<open>try\<close>. The result is the pair
  (metadata or None, None or 'warning' or the text of the exception).
\<close>

definition process_dicom_series_try ::
  "'px extractor \<Rightarrow> 'px sitk \<Rightarrow> os_env \<Rightarrow> (nat \<Rightarrow> string) \<Rightarrow> string \<Rightarrow> lookup_table \<Rightarrow> string
     \<Rightarrow> world \<Rightarrow> (series_record option \<times> string option) \<times> world" where
  "process_dicom_series_try extract lib os clock path series_descriptions base_path w =
     (let rd = create_dicom_reader
      in case load_dicom_image_from_folder lib rd path of
           Inl e \<Rightarrow> handle_exception clock path e w
         | Inr (img, rd') \<Rightarrow>
             (case extract rd' img path series_descriptions base_path (stdout w) of
                (out, Inl e) \<Rightarrow> handle_exception clock path e (w\<lparr>stdout := out\<rparr>)
              | (out, Inr metadata) \<Rightarrow>
                  (let w1 = w\<lparr>stdout := out\<rparr>;
                       num_files = length (listdir os path);
                       num_slices = snd (snd (GetSize img))
                   in if num_files \<noteq> num_slices
                      then (let (ts, w2) = timestamp_now clock w1
                            in ((Some metadata, Some ''warning''),
                                w2\<lparr>log_text := log_text w2
                                      @ warning_log_line ts path num_files num_slices\<rparr>))
                      else ((Some metadata, None), w1))))"

text \<open>
  \<open>process_dicom_series\<close>. Its first statement (line 33) is
  \<open>from metadata_extractor import extract_metadata_from_reader\<close>, before the \<open>try\<close>:
  an import that fails raises out of the function, and nothing is logged.
\<close>

definition process_dicom_series ::
  "'px modules \<Rightarrow> 'px sitk \<Rightarrow> os_env \<Rightarrow> (nat \<Rightarrow> string) \<Rightarrow> string \<Rightarrow> lookup_table \<Rightarrow> string
     \<Rightarrow> world \<Rightarrow> (error + (series_record option \<times> string option)) \<times> world" where
  "process_dicom_series modules lib os clock path series_descriptions base_path w =
     (case import_from modules ''metadata_extractor'' of
        Inl e \<Rightarrow> (Inl e, w)
      | Inr extract \<Rightarrow>
          (case process_dicom_series_try extract lib os clock path series_descriptions
                  base_path w of
             (res, w') \<Rightarrow> (Inr res, w')))"

text \<open>
  The body of the loop over \<open>dicom_dirs\<close> in \<open>process_all_dicom_series\<close>. The call is
  not guarded: an exception of \<open>process_dicom_series\<close> leaves the loop.
\<close>

definition loop_body ::
  "'px modules \<Rightarrow> 'px sitk \<Rightarrow> os_env \<Rightarrow> (nat \<Rightarrow> string) \<Rightarrow> lookup_table \<Rightarrow> string \<Rightarrow> string
     \<Rightarrow> series_record list \<times> stats \<times> world
     \<Rightarrow> (error + (series_record list \<times> stats)) \<times> world" where
  "loop_body modules lib os clock series_descriptions dicom_path path state =
     (case state of (metadata, st, w) \<Rightarrow>
        (case process_dicom_series modules lib os clock path series_descriptions dicom_path w of
           (Inl e, w') \<Rightarrow> (Inl e, w')
         | (Inr (Some result, err), w') \<Rightarrow>
             (Inr (metadata @ [result],
                   (if err = Some ''warning''
                    then st\<lparr>processed := processed st + 1, warnings := warnings st + 1\<rparr>
                    else st\<lparr>processed := processed st + 1\<rparr>)),
              w')
         | (Inr (None, err), w') \<Rightarrow> (Inr (metadata, st\<lparr>errors := errors st + 1\<rparr>), w')))"

fun dirs_loop ::
  "'px modules \<Rightarrow> 'px sitk \<Rightarrow> os_env \<Rightarrow> (nat \<Rightarrow> string) \<Rightarrow> lookup_table \<Rightarrow> string \<Rightarrow> string list
     \<Rightarrow> series_record list \<times> stats \<times> world
     \<Rightarrow> (error + (series_record list \<times> stats)) \<times> world" where
  "dirs_loop modules lib os clock series_descriptions dicom_path [] (metadata, st, w) =
     (Inr (metadata, st), w)"
| "dirs_loop modules lib os clock series_descriptions dicom_path (path # rest) (metadata, st, w) =
     (case loop_body modules lib os clock series_descriptions dicom_path path (metadata, st, w) of
        (Inl e, w') \<Rightarrow> (Inl e, w')
      | (Inr (metadata', st'), w') \<Rightarrow>
          dirs_loop modules lib os clock series_descriptions dicom_path rest (metadata', st', w'))"

text \<open>The directories of the tree that hold at least one file ending in \<open>.dcm\<close>.\<close>

definition dicom_dirs :: "os_env \<Rightarrow> string \<Rightarrow> string list" where
  "dicom_dirs os dicom_path =
     map fst (filter (\<lambda>(root, dirs, files). \<exists>f \<in> set files. endswith f ''.dcm'')
                (walk os dicom_path))"

definition log_header :: "string \<Rightarrow> string" where
  "log_header ts =
     ''DICOM Processing Log - Started at '' @ ts @ [CHR 0x0A]
       @ replicate 50 (CHR ''='') @ [CHR 0x0A, CHR 0x0A]"

definition log_footer :: "string \<Rightarrow> stats \<Rightarrow> string" where
  "log_footer ts st =
     [CHR 0x0A] @ ''Processing completed at '' @ ts @ [CHR 0x0A]
       @ ''Final stats: '' @ str_nat (processed st) @ '' processed, ''
       @ str_nat (errors st) @ '' errors, '' @ str_nat (warnings st) @ '' warnings''
       @ [CHR 0x0A]"

text \<open>
  \<open>process_all_dicom_series\<close>: the log is opened with mode \<open>'w'\<close>, so its former text
  is replaced by the header. An exception in the loop leaves the function before the
  final statistics are written. The progress bar is not modelled.
\<close>

definition process_all_dicom_series ::
  "'px modules \<Rightarrow> 'px sitk \<Rightarrow> os_env \<Rightarrow> (nat \<Rightarrow> string) \<Rightarrow> string \<Rightarrow> lookup_table \<Rightarrow> string
     \<Rightarrow> world \<Rightarrow> (error + (series_record list \<times> stats \<times> string)) \<times> world" where
  "process_all_dicom_series modules lib os clock dicom_path series_descriptions output_path w =
     (let log_file = os_path_join output_path ''processing_log.txt'';
          (ts, w1) = timestamp_now clock w;
          w2 = w1\<lparr>log_text := log_header ts\<rparr>;
          dirs = dicom_dirs os dicom_path;
          w3 = w2\<lparr>stdout := stdout w2
                  @ [''Found '' @ str_nat (length dirs) @ '' DICOM directories to process...'',
                     ''Logging to: '' @ log_file]\<rparr>
      in case dirs_loop modules lib os clock series_descriptions dicom_path dirs
                ([], \<lparr>processed = 0, errors = 0, warnings = 0\<rparr>, w3) of
           (Inl e, w4) \<Rightarrow> (Inl e, w4)
         | (Inr (metadata, st), w4) \<Rightarrow>
             (let (end_ts, w5) = timestamp_now clock w4
              in (Inr (metadata, st, log_file),
                  w5\<lparr>log_text := log_text w5 @ log_footer end_ts st\<rparr>)))"

section \<open>Study consolidation (scripts/process\_studies.py)\<close>

text \<open>
  A data frame with the columns of \<open>series_record\<close> is the list of its rows.
  \<open>metadata.groupby('study_id')\<close> yields the distinct study ids in sorted order, each
  with its rows in their stored order.
\<close>

definition groupby_study_id :: "series_record list \<Rightarrow> (string \<times> series_record list) list" where
  "groupby_study_id metadata =
     map (\<lambda>sid. (sid, filter (\<lambda>r. study_id r = sid) metadata))
         (sort (remdups (map study_id metadata)))"

text \<open>\<open>group[group['generic_sequence_label'] == seq_type]\<close>.\<close>

definition rows_with_label :: "string \<Rightarrow> series_record list \<Rightarrow> series_record list" where
  "rows_with_label seq_type grp = filter (\<lambda>r. generic_sequence_label r = seq_type) grp"

text \<open>\<open>df.iloc[-1]\<close>: the last row; IndexError on an empty frame.\<close>

definition iloc_last :: "'a list \<Rightarrow> error + 'a" where
  "iloc_last rows = (if rows = [] then Inl IndexError else Inr (last rows))"

text \<open>\<open>df.iloc[0]\<close>: the first row; IndexError on an empty frame.\<close>

definition iloc_first :: "'a list \<Rightarrow> error + 'a" where
  "iloc_first rows = (case rows of [] \<Rightarrow> Inl IndexError | r # _ \<Rightarrow> Inr r)"

definition found_types :: "string list \<Rightarrow> series_record list \<Rightarrow> string list" where
  "found_types series_types grp =
     filter (\<lambda>seq_type. rows_with_label seq_type grp \<noteq> []) series_types"

text \<open>The inner loop over \<open>series_types\<close>, appending to \<open>res\<close>.\<close>

fun select_loop :: "string list \<Rightarrow> series_record list \<Rightarrow> series_record list
    \<Rightarrow> error + series_record list" where
  "select_loop [] grp res = Inr res"
| "select_loop (seq_type # rest) grp res =
     (case iloc_last (rows_with_label seq_type grp) of
        Inl e \<Rightarrow> Inl e
      | Inr selected \<Rightarrow> select_loop rest grp (res @ [selected]))"

text \<open>The outer loop over the groups.\<close>

fun study_loop :: "string list \<Rightarrow> (string \<times> series_record list) list \<Rightarrow> series_record list
    \<Rightarrow> error + series_record list" where
  "study_loop series_types [] res = Inr res"
| "study_loop series_types ((sid, grp) # groups) res =
     (if set (found_types series_types grp) = set series_types
      then (case select_loop series_types grp res of
              Inl e \<Rightarrow> Inl e
            | Inr res' \<Rightarrow> study_loop series_types groups res')
      else study_loop series_types groups res)"

definition select_single_series_per_type :: "config \<Rightarrow> series_record list
    \<Rightarrow> error + series_record list" where
  "select_single_series_per_type cfg metadata =
     study_loop (map fst (series_to_process cfg)) (groupby_study_id metadata) []"

section \<open>Resampling onto the reference series (scripts/process\_studies.py)\<close>

text \<open>
  The effects of the second stage: the directories passed to \<open>os.makedirs\<close> and the
  calls of \<open>sitk.WriteImage\<close> (path and image), in order. Both succeed.
\<close>

record 'px out_state =
  made_dirs :: "string list"
  written :: "(string \<times> 'px image) list"

text \<open>\<open>d[key]\<close> on a dictionary: KeyError when the key is missing.\<close>

definition dict_get :: "(string \<times> 'v) list \<Rightarrow> string \<Rightarrow> error + 'v" where
  "dict_get d k = (case map_of d k of None \<Rightarrow> Inl (KeyError k) | Some v \<Rightarrow> Inr v)"

text \<open>
  A fresh \<open>ResampleImageFilter\<close> (linear interpolation, an empty unit grid), and
  \<open>SetReferenceImage\<close>, which copies the grid of an image into the filter.
\<close>

definition new_resample_filter :: resample_filter where
  "new_resample_filter =
     \<lparr> OutputSize = (0, 0, 0), OutputSpacing = (1, 1, 1), OutputOrigin = (0, 0, 0),
       OutputDirection = [1, 0, 0, 0, 1, 0, 0, 0, 1], Interpolator = sitkLinear \<rparr>"

definition SetReferenceImage :: "resample_filter \<Rightarrow> 'px image \<Rightarrow> resample_filter" where
  "SetReferenceImage f img =
     f\<lparr> OutputSize := GetSize img, OutputSpacing := GetSpacing img,
        OutputOrigin := GetOrigin img, OutputDirection := GetDirection img \<rparr>"

text \<open>
  Lines 68 to 70: the resampler set up with the reference image and the interpolator.
\<close>

definition reference_resampler :: "'px image \<Rightarrow> resample_filter" where
  "reference_resampler reference_image =
     (SetReferenceImage new_resample_filter reference_image)
       \<lparr>Interpolator := sitkNearestNeighbor\<rparr>"

text \<open>
  The image of the first row of a study with a given label: the row
  (\<open>iloc[0]\<close>), the path of its folder under the raw root, a fresh reader, the load.
\<close>

definition load_labelled ::
  "'px sitk \<Rightarrow> (string \<Rightarrow> string) \<Rightarrow> series_record list \<Rightarrow> string \<Rightarrow> error + 'px image" where
  "load_labelled lib paths_config study_metadata seq_type =
     (case iloc_first (rows_with_label seq_type study_metadata) of
        Inl e \<Rightarrow> Inl e
      | Inr row \<Rightarrow>
          (case load_dicom_image_from_folder lib create_dicom_reader
                  (os_path_join (paths_config ''dicom_raw'') (folder_path row)) of
             Inl e \<Rightarrow> Inl e
           | Inr (img, rd) \<Rightarrow> Inr img))"

definition image_output_path :: "string \<Rightarrow> string \<Rightarrow> string" where
  "image_output_path save_path slot = os_path_join save_path (''image_'' @ slot @ ''.mha'')"

text \<open>
  The loop over the keys of \<open>series_to_process\<close> (lines 73 to 85); an exception leaves
  the function, with the files written so far in place.
\<close>

fun resample_loop ::
  "'px sitk \<Rightarrow> (string \<Rightarrow> string) \<Rightarrow> (string \<times> string) list \<Rightarrow> string \<Rightarrow> series_record list
     \<Rightarrow> string \<Rightarrow> resample_filter \<Rightarrow> string list \<Rightarrow> 'px out_state
     \<Rightarrow> 'px out_state \<times> (error + unit)" where
  "resample_loop lib paths_config stp reference study_metadata save_path resample [] st =
     (st, Inr ())"
| "resample_loop lib paths_config stp reference study_metadata save_path resample
       (seq_type # rest) st =
     (if seq_type = reference
      then resample_loop lib paths_config stp reference study_metadata save_path resample rest st
      else
        (case load_labelled lib paths_config study_metadata seq_type of
           Inl e \<Rightarrow> (st, Inl e)
         | Inr add_image \<Rightarrow>
        (case ResampleExecute lib resample add_image of
           Inl e \<Rightarrow> (st, Inl e)
         | Inr resampled_image \<Rightarrow>
        (case dict_get stp seq_type of
           Inl e \<Rightarrow> (st, Inl e)
         | Inr slot \<Rightarrow>
             resample_loop lib paths_config stp reference study_metadata save_path resample rest
               (st\<lparr>written := written st @ [(image_output_path save_path slot, resampled_image)]\<rparr>)))))"

text \<open>The directory of a study's outputs: line 52.\<close>

definition save_path_of :: "(string \<Rightarrow> string) \<Rightarrow> string \<Rightarrow> string \<Rightarrow> string" where
  "save_path_of paths_config patient study =
     os_path_join (paths_config ''dicom_processed'') (patient @ ''/'' @ study @ ''/'')"

text \<open>The body of the loop over the studies (lines 50 to 85).\<close>

definition process_study ::
  "'px sitk \<Rightarrow> (string \<times> string) list \<Rightarrow> string \<Rightarrow> (string \<Rightarrow> string)
     \<Rightarrow> string \<times> series_record list \<Rightarrow> 'px out_state \<Rightarrow> 'px out_state \<times> (error + unit)" where
  "process_study lib stp reference paths_config grp st =
     (case grp of (sid, study_metadata) \<Rightarrow>
      (case iloc_first study_metadata of
         Inl e \<Rightarrow> (st, Inl e)
       | Inr first_row \<Rightarrow>
          (let save_path = save_path_of paths_config (patient_id first_row) sid;
               st1 = st\<lparr>made_dirs := made_dirs st @ [save_path]\<rparr>
           in case load_labelled lib paths_config study_metadata reference of
                Inl e \<Rightarrow> (st1, Inl e)
              | Inr reference_image \<Rightarrow>
             (case dict_get stp reference of
                Inl e \<Rightarrow> (st1, Inl e)
              | Inr ref_slot \<Rightarrow>
                  resample_loop lib paths_config stp reference study_metadata save_path
                    (reference_resampler reference_image) (map fst stp)
                    (st1\<lparr>written := written st1
                          @ [(image_output_path save_path ref_slot, reference_image)]\<rparr>)))))"

fun studies_loop ::
  "'px sitk \<Rightarrow> (string \<times> string) list \<Rightarrow> string \<Rightarrow> (string \<Rightarrow> string)
     \<Rightarrow> (string \<times> series_record list) list \<Rightarrow> 'px out_state
     \<Rightarrow> 'px out_state \<times> (error + unit)" where
  "studies_loop lib stp reference paths_config [] st = (st, Inr ())"
| "studies_loop lib stp reference paths_config (grp # groups) st =
     (case process_study lib stp reference paths_config grp st of
        (st', Inl e) \<Rightarrow> (st', Inl e)
      | (st', Inr u) \<Rightarrow> studies_loop lib stp reference paths_config groups st')"

text \<open>
  \<open>process_and_save_studies\<close>. Its argument is the frame that the consolidator builds
  with \<open>pd.DataFrame(res)\<close>; without rows that frame has no columns, and
  \<open>groupby('study_id')\<close> raises KeyError. No statement of the loop is guarded: the
  first exception leaves the function.
\<close>

definition process_and_save_studies ::
  "'px sitk \<Rightarrow> series_record list \<Rightarrow> (string \<times> string) list \<Rightarrow> string \<Rightarrow> (string \<Rightarrow> string)
     \<Rightarrow> 'px out_state \<Rightarrow> 'px out_state \<times> (error + unit)" where
  "process_and_save_studies lib metadata stp reference paths_config st =
     (if metadata = [] then (st, Inl (KeyError ''study_id''))
      else studies_loop lib stp reference paths_config (groupby_study_id metadata) st)"

text \<open>Two images on the same grid.\<close>

definition same_grid :: "'px image \<Rightarrow> 'px image \<Rightarrow> bool" where
  "same_grid a b \<longleftrightarrow>
     GetSize a = GetSize b \<and> GetSpacing a = GetSpacing b \<and>
     GetOrigin a = GetOrigin b \<and> GetDirection a = GetDirection b"

text \<open>
  The contract of the external resampling primitive: it returns an image on the grid
  set on the filter.
\<close>

definition resample_contract :: "'px sitk \<Rightarrow> bool" where
  "resample_contract lib \<longleftrightarrow>
     (\<forall>f img. \<exists>res. ResampleExecute lib f img = Inr res \<and>
        GetSize res = OutputSize f \<and> GetSpacing res = OutputSpacing f \<and>
        GetOrigin res = OutputOrigin f \<and> GetDirection res = OutputDirection f)"

text \<open>
  What the resampling engine is to write for one study, in the words of the
  specification, over the records of the study and the external library only.
  \<open>label_volume\<close>: the volume of a label is the series decoded from the folder, under
  the raw root, of the study's one record with that label.
  \<open>resampled_write\<close>: the file of a non-reference label, named by the label's slot in
  the study's directory, holds the volume of that label resampled with
  nearest-neighbour interpolation onto the grid of the reference volume.
  \<open>study_outputs\<close>: the writes of a study are, in its directory
  \<open>processed root/patient/study/\<close>, the reference volume as loaded under the
  reference's slot name, then one resampled write per other required label; every
  image written is on the grid of the reference volume.
\<close>

definition label_volume ::
  "'px sitk \<Rightarrow> (string \<Rightarrow> string) \<Rightarrow> series_record list \<Rightarrow> string \<Rightarrow> 'px image \<Rightarrow> bool" where
  "label_volume lib paths_config study_metadata seq_type img \<longleftrightarrow>
     (\<exists>row rd folder.
        filter (\<lambda>r. generic_sequence_label r = seq_type) study_metadata = [row] \<and>
        folder = os_path_join (paths_config ''dicom_raw'') (folder_path row) \<and>
        ReaderExecute lib
          (create_dicom_reader\<lparr>FileNames := GetGDCMSeriesFileNames lib folder\<rparr>)
          = Inr (img, rd))"

definition resampled_write ::
  "'px sitk \<Rightarrow> (string \<Rightarrow> string) \<Rightarrow> (string \<times> string) list \<Rightarrow> series_record list \<Rightarrow> string
     \<Rightarrow> 'px image \<Rightarrow> string \<Rightarrow> string \<times> 'px image \<Rightarrow> bool" where
  "resampled_write lib paths_config stp study_metadata save_path reference_image seq_type wr \<longleftrightarrow>
     (\<exists>add_image res slot.
        label_volume lib paths_config study_metadata seq_type add_image \<and>
        ResampleExecute lib
          \<lparr> OutputSize = GetSize reference_image, OutputSpacing = GetSpacing reference_image,
            OutputOrigin = GetOrigin reference_image,
            OutputDirection = GetDirection reference_image,
            Interpolator = sitkNearestNeighbor \<rparr> add_image = Inr res \<and>
        map_of stp seq_type = Some slot \<and>
        wr = (os_path_join save_path (''image_'' @ slot @ ''.mha''), res))"

definition study_outputs ::
  "'px sitk \<Rightarrow> (string \<times> string) list \<Rightarrow> string \<Rightarrow> (string \<Rightarrow> string)
     \<Rightarrow> string \<times> series_record list \<Rightarrow> (string \<times> 'px image) list \<Rightarrow> bool" where
  "study_outputs lib stp reference paths_config grp ws \<longleftrightarrow>
     (\<exists>first_row other_rows save_path reference_image ref_slot ws'.
        snd grp = first_row # other_rows \<and>
        save_path = os_path_join (paths_config ''dicom_processed'')
                      (patient_id first_row @ ''/'' @ fst grp @ ''/'') \<and>
        label_volume lib paths_config (snd grp) reference reference_image \<and>
        map_of stp reference = Some ref_slot \<and>
        ws = (os_path_join save_path (''image_'' @ ref_slot @ ''.mha''), reference_image) # ws' \<and>
        list_all2
          (resampled_write lib paths_config stp (snd grp) save_path reference_image)
          (filter (\<lambda>seq_type. seq_type \<noteq> reference) (map fst stp)) ws' \<and>
        list_all (\<lambda>wr. same_grid (snd wr) reference_image) ws)"

text \<open>A record decodes when the library reads a series from its folder under the raw root.\<close>

definition decodes :: "'px sitk \<Rightarrow> (string \<Rightarrow> string) \<Rightarrow> series_record \<Rightarrow> bool" where
  "decodes lib paths_config row \<longleftrightarrow>
     (\<exists>img rd.
        ReaderExecute lib
          (create_dicom_reader\<lparr>FileNames := GetGDCMSeriesFileNames lib
             (os_path_join (paths_config ''dicom_raw'') (folder_path row))\<rparr>)
          = Inr (img, rd))"

text \<open>Vocabulary for the statements about consolidation.\<close>

definition study_rows :: "string \<Rightarrow> series_record list \<Rightarrow> series_record list" where
  "study_rows sid rows = filter (\<lambda>r. study_id r = sid) rows"

definition study_labels :: "string \<Rightarrow> series_record list \<Rightarrow> string set" where
  "study_labels sid rows = generic_sequence_label ` set (study_rows sid rows)"

definition required_labels :: "config \<Rightarrow> string list" where
  "required_labels cfg = map fst (series_to_process cfg)"

text \<open>
  A group is complete for the required labels when each of them labels a row of the
  group; the rows picked for a complete group are the last row of each label, in the
  order of the required labels.
\<close>

definition complete_for :: "string list \<Rightarrow> series_record list \<Rightarrow> bool" where
  "complete_for series_types grp \<longleftrightarrow> (\<forall>t \<in> set series_types. rows_with_label t grp \<noteq> [])"

definition picks :: "string list \<Rightarrow> series_record list \<Rightarrow> series_record list" where
  "picks series_types grp = map (\<lambda>t. last (rows_with_label t grp)) series_types"

text \<open>
  Whitespace in the sense of Python's \<open>str.isspace\<close>, on ASCII: tab, line feed,
  vertical tab, form feed, carriage return, the four separators 0x1C to 0x1F, space.
\<close>

definition isspace :: "char \<Rightarrow> bool" where
  "isspace c \<longleftrightarrow> c \<in> {CHR 0x09, CHR 0x0A, CHR 0x0B, CHR 0x0C, CHR 0x0D,
                      CHR 0x1C, CHR 0x1D, CHR 0x1E, CHR 0x1F, CHR '' ''}"

text \<open>
  The semantic names of the eight tags that \<open>extract_metadata_from_reader\<close> reads from
  the first slice; all are present when each read returns a value.
\<close>

definition tag_names :: "string list" where
  "tag_names = [''patient_id'', ''series_description'', ''study_id'', ''series_id'',
                ''scanner_type'', ''scanner_manufacturer'', ''scanner_model'',
                ''magnetic_field_strength'']"

definition all_tags_present :: "config \<Rightarrow> reader \<Rightarrow> bool" where
  "all_tags_present cfg rd \<longleftrightarrow>
     (\<forall>k \<in> set tag_names. \<exists>v. GetMetaData rd 0 (dicom_tags cfg k) = Inr v)"

section \<open>Example data\<close>

definition example_config :: config where
  "example_config =
     \<lparr> series_to_process = [(''T1'', ''t1w''), (''T2'', ''t2w'')],
       reference_series = ''T1'',
       dicom_tags = (\<lambda>k. k),
       paths = (\<lambda>k. k) \<rparr>"

definition example_row :: "string \<Rightarrow> string \<Rightarrow> string \<Rightarrow> series_record" where
  "example_row sid label folder =
     \<lparr> patient_id = ''P1'', study_id = sid, series_id = folder, scanner_type = ''MR'',
       scanner_manufacturer = ''ACME'', scanner_model = ''M1'',
       magnetic_field_strength = ''3'', series_description = label,
       generic_sequence_label = label, num_dicom_files = 1, num_loaded_slices = 1,
       size_vol = (1, 1, 1), pixel_spacing = (1, 1, 1), folder_path = folder \<rparr>"

text \<open>
  Study S1 has two T1 series (A, then B), a T2 series and an unmapped one; study S2
  has a T1 series only.
\<close>

definition example_table :: "series_record list" where
  "example_table =
     [example_row ''S1'' ''T1'' ''A'', example_row ''S1'' ''T1'' ''B'',
      example_row ''S1'' ''T2'' ''C'', example_row ''S1'' ''unknown'' ''D'',
      example_row ''S2'' ''T1'' ''E'']"

text \<open>
  A small tree for the ingestion run: three series directories under \<open>/data\<close>. The
  first holds one slice and a text file beside it and decodes to a series described
  as \<open>T1 AX\<close>; the second holds one slice, described as \<open>T2 FLAIR\<close>, which the lookup
  file does not list; the third does not decode.
\<close>

definition example_tags :: "string \<Rightarrow> nat \<Rightarrow> string \<Rightarrow> error + string" where
  "example_tags descr i key =
     (if i = 0 then
        (case map_of [(''patient_id'', ''P1''), (''series_description'', descr),
                      (''study_id'', ''S1''), (''series_id'', ''1.2.3''),
                      (''scanner_type'', ''MR''), (''scanner_manufacturer'', ''ACME''),
                      (''scanner_model'', ''M1''), (''magnetic_field_strength'', ''3'')] key of
           Some v \<Rightarrow> Inr v
         | None \<Rightarrow> Inl (RuntimeError ''Key does not exist''))
      else Inl (RuntimeError ''Slice index out of range''))"

definition example_image :: "nat list image" where
  "example_image =
     \<lparr> GetSize = (2, 2, 1), GetSpacing = (1, 1, 3), GetOrigin = (0, 0, 0),
       GetDirection = [1, 0, 0, 0, 1, 0, 0, 0, 1], GetPixels = [7, 0, 0, 9] \<rparr>"

definition example_lib :: "nat list sitk" where
  "example_lib =
     \<lparr> GetGDCMSeriesFileNames = (\<lambda>folder. [folder @ ''/IM1.dcm'']),
       ReaderExecute = (\<lambda>rd.
         if FileNames rd = [''/data/P1/S1/bad/IM1.dcm'']
           then Inl (RuntimeError ''decode failed'')
         else if FileNames rd = [''/data/P1/S1/t2/IM1.dcm'']
           then Inr (example_image, rd\<lparr>GetMetaData := example_tags ''T2 FLAIR''\<rparr>)
         else if FileNames rd = [''dicom_raw/X/IM1.dcm'']
           then Inl (RuntimeError ''decode failed'')
         else if FileNames rd = [''dicom_raw/C/IM1.dcm'']
           then Inr (example_image\<lparr>GetSize := (4, 4, 2), GetSpacing := (1 / 2, 1 / 2, 3 / 2),
                                     GetPixels := replicate 32 5\<rparr>,
                     rd\<lparr>GetMetaData := example_tags ''T2 FLAIR''\<rparr>)
         else Inr (example_image, rd\<lparr>GetMetaData := example_tags ''T1 AX''\<rparr>)),
       ResampleExecute = (\<lambda>f img. Inr
         \<lparr> GetSize = OutputSize f, GetSpacing = OutputSpacing f, GetOrigin = OutputOrigin f,
           GetDirection = OutputDirection f,
           GetPixels = replicate (case OutputSize f of (nx, ny, nz) \<Rightarrow> nx * ny * nz)
                         (case GetPixels img of [] \<Rightarrow> 0 | v # vs \<Rightarrow> v) \<rparr>) \<rparr>"

definition example_os :: os_env where
  "example_os =
     \<lparr> listdir = (\<lambda>p. if p = ''/data/P1/S1/t1'' then [''IM1.dcm'', ''notes.txt'']
                      else [''IM1.dcm'']),
       walk = (\<lambda>top.
         [(''/data'', [''P1''], []),
          (''/data/P1'', [''S1''], []),
          (''/data/P1/S1'', [''t1'', ''t2'', ''bad''], []),
          (''/data/P1/S1/t1'', [], [''IM1.dcm'', ''notes.txt'']),
          (''/data/P1/S1/t2'', [], [''IM1.dcm'']),
          (''/data/P1/S1/bad'', [], [''IM1.dcm''])]),
       relpath = (\<lambda>p start. drop (length start + 1) p),
       read_excel = (\<lambda>file.
         [(''Patient'', ''Series description'', ''Label''),
          (''P1'', ''T1 AX'', ''T1'')]) \<rparr>"

text \<open>A tree without any series directory.\<close>

definition empty_os :: os_env where
  "empty_os = example_os\<lparr>walk := (\<lambda>top. [(''/data'', [], [''readme.txt''])])\<rparr>"

definition example_clock :: "nat \<Rightarrow> string" where
  "example_clock n = ''2024-01-01 00:00:0'' @ str_nat n"

definition example_world :: world where
  "example_world = \<lparr> log_text = [], stdout = [], now_calls = 0 \<rparr>"

definition example_fmt :: "nat \<Rightarrow> nat \<Rightarrow> string" where
  "example_fmt a b = str_nat (a * 100 div b) @ ''.0''"

text \<open>The reader after the first directory has been decoded, and the lookup table.\<close>

definition example_reader :: reader where
  "example_reader =
     create_dicom_reader\<lparr>FileNames := [''/data/P1/S1/t1/IM1.dcm''],
                         GetMetaData := example_tags ''T1 AX''\<rparr>"

definition example_lookup :: lookup_table where
  "example_lookup = load_series_descriptions example_os ''lookup.xlsx''"

text \<open>The reader after the second directory has been decoded.\<close>

definition example_reader2 :: reader where
  "example_reader2 =
     create_dicom_reader\<lparr>FileNames := [''/data/P1/S1/t2/IM1.dcm''],
                         GetMetaData := example_tags ''T2 FLAIR''\<rparr>"

text \<open>The statistics before the first directory.\<close>

definition zero_stats :: stats where
  "zero_stats = \<lparr>processed = 0, errors = 0, warnings = 0\<rparr>"

text \<open>The state of the second stage before any write.\<close>

definition empty_out :: "nat list out_state" where
  "empty_out = \<lparr> made_dirs = [], written = [] \<rparr>"

text \<open>The T2 series of the example resampled onto the grid of the T1 series.\<close>

definition example_resampled :: "nat list image" where
  "example_resampled =
     \<lparr> GetSize = (2, 2, 1), GetSpacing = (1, 1, 3), GetOrigin = (0, 0, 0),
       GetDirection = [1, 0, 0, 0, 1, 0, 0, 0, 1], GetPixels = [5, 5, 5, 5] \<rparr>"

text \<open>
  The modules of the repository as shipped, and the same with a module
  \<open>metadata_extractor\<close> added that provides the repository's extractor.
\<close>

definition shipped_modules :: "nat list modules" where
  "shipped_modules = repository_modules example_config example_os"

definition patched_modules :: "nat list modules" where
  "patched_modules =
     (repository_modules example_config example_os)
       (''metadata_extractor'' \<mapsto> extract_metadata_from_reader example_config example_os)"

text \<open>
  A consolidated table of two studies: the reference series of study S0 lies in a
  folder that does not decode; both series of study S1 decode.
\<close>

definition example_two_studies :: "series_record list" where
  "example_two_studies =
     [example_row ''S0'' ''T1'' ''X'', example_row ''S0'' ''T2'' ''C'',
      example_row ''S1'' ''T1'' ''B'', example_row ''S1'' ''T2'' ''C'']"

text \<open>
  A consolidated table of two studies in which the later study, S2, has its reference
  series in the folder that does not decode.
\<close>

definition example_later_failure :: "series_record list" where
  "example_later_failure =
     [example_row ''S1'' ''T1'' ''B'', example_row ''S1'' ''T2'' ''C'',
      example_row ''S2'' ''T1'' ''X'', example_row ''S2'' ''T2'' ''C'']"

section \<open>Verified properties\<close>

subsection \<open>Study consolidation\<close>

lemma found_types_complete:
  "set (found_types ts grp) = set ts \<longleftrightarrow> complete_for ts grp"
  by (auto simp: found_types_def complete_for_def)

lemma select_loop_complete:
  "\<forall>t \<in> set ts. rows_with_label t grp \<noteq> [] \<Longrightarrow>
   select_loop ts grp res = Inr (res @ map (\<lambda>t. last (rows_with_label t grp)) ts)"
  by (induction ts arbitrary: res) (simp_all add: iloc_last_def)

lemma study_loop_result:
  "study_loop ts groups res =
     Inr (res @ concat (map (\<lambda>g. picks ts (snd g)) (filter (\<lambda>g. complete_for ts (snd g)) groups)))"
proof (induction groups arbitrary: res)
  case Nil
  show ?case by simp
next
  case (Cons g groups)
  obtain sid grp where g: "g = (sid, grp)" by (cases g)
  show ?case
  proof (cases "complete_for ts grp")
    case True
    then have "select_loop ts grp res = Inr (res @ picks ts grp)"
      unfolding complete_for_def picks_def by (rule select_loop_complete)
    with True show ?thesis
      by (simp add: g found_types_complete Cons.IH)
  next
    case False
    then show ?thesis
      by (simp add: g found_types_complete Cons.IH)
  qed
qed

lemma select_result:
  "select_single_series_per_type cfg metadata =
     Inr (concat (map (\<lambda>sid. picks (required_labels cfg) (study_rows sid metadata))
            (filter (\<lambda>sid. complete_for (required_labels cfg) (study_rows sid metadata))
               (sort (remdups (map study_id metadata))))))"
  by (simp add: select_single_series_per_type_def study_loop_result groupby_study_id_def
      required_labels_def study_rows_def filter_map comp_def)

lemma picks_study_id:
  assumes "complete_for ts (study_rows sid rows)" "r \<in> set (picks ts (study_rows sid rows))"
  shows "study_id r = sid"
proof -
  from assms(2) obtain t where t: "t \<in> set ts"
    and r: "r = last (rows_with_label t (study_rows sid rows))"
    by (auto simp: picks_def)
  from assms(1) t have "rows_with_label t (study_rows sid rows) \<noteq> []"
    by (simp add: complete_for_def)
  then have "r \<in> set (rows_with_label t (study_rows sid rows))"
    unfolding r by (rule last_in_set)
  then show ?thesis by (simp add: rows_with_label_def study_rows_def)
qed

lemma filter_concat_keyed:
  assumes "distinct xs" "\<And>x r. x \<in> set xs \<Longrightarrow> r \<in> set (f x) \<Longrightarrow> key r = x"
  shows "filter (\<lambda>r. key r = s) (concat (map f xs)) = (if s \<in> set xs then f s else [])"
  using assms
proof (induction xs)
  case Nil
  show ?case by simp
next
  case (Cons x xs)
  have fx: "filter (\<lambda>r. key r = s) (f x) = (if s = x then f x else [])"
    using Cons.prems(2)[of x] by (auto simp: filter_empty_conv intro: filter_True)
  have rest: "filter (\<lambda>r. key r = s) (concat (map f xs)) = (if s \<in> set xs then f s else [])"
    using Cons by simp
  show ?case using Cons.prems(1) by (auto simp: fx rest)
qed

lemma study_rows_select:
  assumes "select_single_series_per_type cfg metadata = Inr out"
  shows "study_rows sid out =
     (if sid \<in> study_id ` set metadata \<and> complete_for (required_labels cfg) (study_rows sid metadata)
      then picks (required_labels cfg) (study_rows sid metadata) else [])"
proof -
  let ?ts = "required_labels cfg"
  let ?sids = "filter (\<lambda>sid. complete_for ?ts (study_rows sid metadata))
               (sort (remdups (map study_id metadata)))"
  have out: "out = concat (map (\<lambda>sid. picks ?ts (study_rows sid metadata)) ?sids)"
    using assms by (simp add: select_result)
  have d: "distinct ?sids" by simp
  have k: "\<And>x r. x \<in> set ?sids \<Longrightarrow> r \<in> set (picks ?ts (study_rows x metadata)) \<Longrightarrow> study_id r = x"
    by (auto intro: picks_study_id)
  have "filter (\<lambda>r. study_id r = sid) out =
     (if sid \<in> set ?sids then picks ?ts (study_rows sid metadata) else [])"
    unfolding out using d k by (rule filter_concat_keyed)
  then show ?thesis by (auto simp: study_rows_def)
qed


lemma complete_for_labels:
  "complete_for ts (study_rows sid rows) \<longleftrightarrow> study_labels sid rows \<inter> set ts = set ts"
proof -
  have "complete_for ts (study_rows sid rows) \<longleftrightarrow> set ts \<subseteq> study_labels sid rows"
    by (auto simp: complete_for_def study_labels_def rows_with_label_def filter_empty_conv)
  then show ?thesis by blast
qed

lemma study_rows_nonempty: "study_rows sid rows \<noteq> [] \<longleftrightarrow> sid \<in> study_id ` set rows"
  by (auto simp: study_rows_def filter_empty_conv)

lemma picks_label:
  assumes "complete_for ts grp" "t \<in> set ts"
  shows "generic_sequence_label (last (rows_with_label t grp)) = t"
proof -
  from assms have "rows_with_label t grp \<noteq> []" by (simp add: complete_for_def)
  then have "last (rows_with_label t grp) \<in> set (rows_with_label t grp)" by (rule last_in_set)
  then show ?thesis by (simp add: rows_with_label_def)
qed

lemma map_label_picks:
  assumes "complete_for ts grp"
  shows "map generic_sequence_label (picks ts grp) = ts"
  using picks_label[OF assms] by (simp add: picks_def map_idI)

lemma filter_map_keyed:
  assumes "distinct ts" "t \<in> set ts" "\<And>u. u \<in> set ts \<Longrightarrow> key (f u) = u"
  shows "filter (\<lambda>r. key r = t) (map f ts) = [f t]"
  using assms
proof (induction ts)
  case Nil
  then show ?case by simp
next
  case (Cons u ts)
  show ?case
  proof (cases "u = t")
    case True
    with Cons.prems have "t \<notin> set ts" by simp
    then have "filter (\<lambda>r. key r = t) (map f ts) = []"
      using Cons.prems(3) by (auto simp: filter_empty_conv)
    with True Cons.prems(3)[of u] show ?thesis by simp
  next
    case False
    with Cons show ?thesis by auto
  qed
qed

lemma rows_with_label_picks:
  assumes "distinct ts" "complete_for ts grp" "t \<in> set ts"
  shows "rows_with_label t (picks ts grp) = [last (rows_with_label t grp)]"
proof -
  have "filter (\<lambda>r. generic_sequence_label r = t) (map (\<lambda>u. last (rows_with_label u grp)) ts)
        = [last (rows_with_label t grp)]"
    using assms(1,3) picks_label[OF assms(2)] by (rule filter_map_keyed)
  then show ?thesis by (simp add: rows_with_label_def picks_def)
qed

lemma complete_study_present:
  assumes "complete_for ts (study_rows sid rows)" "ts \<noteq> []"
  shows "sid \<in> study_id ` set rows"
proof -
  from assms(2) obtain t where "t \<in> set ts" by (cases ts) auto
  with assms(1) have "rows_with_label t (study_rows sid rows) \<noteq> []"
    by (simp add: complete_for_def)
  then have "study_rows sid rows \<noteq> []" by (auto simp: rows_with_label_def)
  then show ?thesis by (simp add: study_rows_nonempty)
qed

lemma example_config_wf: "wf_config example_config"
  by (simp add: wf_config_def example_config_def)

lemma example_selection:
  "select_single_series_per_type example_config example_table
     = Inr [example_row ''S1'' ''T1'' ''B'', example_row ''S1'' ''T2'' ''C'']"
  by code_simp

text \<open>
  Claim C1. With a well-formed configuration (the reference series is a required
  label, so the required set is not empty), consolidation returns a table, and a
  study has rows in it if and only if the labels of its records, intersected with the
  required labels, are all the required labels. A study that misses a required label
  has no row at all; labels outside the required set play no part in the condition.
\<close>

theorem consolidation_completeness:
  assumes "wf_config cfg"
  shows "\<exists>out. select_single_series_per_type cfg metadata = Inr out \<and>
           (\<forall>sid. sid \<in> study_id ` set out \<longleftrightarrow>
              study_labels sid metadata \<inter> set (required_labels cfg) = set (required_labels cfg))"
proof -
  let ?ts = "required_labels cfg"
  obtain out where out: "select_single_series_per_type cfg metadata = Inr out"
    by (simp add: select_result)
  from assms have ne: "?ts \<noteq> []"
    by (auto simp: wf_config_def required_labels_def)
  have "sid \<in> study_id ` set out \<longleftrightarrow> study_labels sid metadata \<inter> set ?ts = set ?ts" for sid
  proof -
    have "sid \<in> study_id ` set out \<longleftrightarrow> study_rows sid out \<noteq> []"
      by (simp add: study_rows_nonempty)
    also have "\<dots> \<longleftrightarrow> sid \<in> study_id ` set metadata \<and> complete_for ?ts (study_rows sid metadata)"
      using ne by (simp add: study_rows_select[OF out] picks_def)
    also have "\<dots> \<longleftrightarrow> complete_for ?ts (study_rows sid metadata)"
    proof -
      have "sid \<in> study_id ` set metadata" if c: "complete_for ?ts (study_rows sid metadata)"
      proof -
        from ne obtain t where "t \<in> set ?ts" by (cases ?ts) auto
        with c have "rows_with_label t (study_rows sid metadata) \<noteq> []"
          by (simp add: complete_for_def)
        then have "study_rows sid metadata \<noteq> []" by (auto simp: rows_with_label_def)
        then show ?thesis by (simp add: study_rows_nonempty)
      qed
      then show ?thesis by blast
    qed
    finally show ?thesis by (simp add: complete_for_labels)
  qed
  with out show ?thesis by blast
qed

theorem consolidation_completeness_witness:
  "wf_config example_config \<and>
   select_single_series_per_type example_config example_table
     = Inr [example_row ''S1'' ''T1'' ''B'', example_row ''S1'' ''T2'' ''C''] \<and>
   study_labels ''S1'' example_table \<inter> set (required_labels example_config)
     = set (required_labels example_config) \<and>
   study_labels ''S2'' example_table \<inter> set (required_labels example_config)
     \<noteq> set (required_labels example_config)"
proof -
  let ?out = "[example_row ''S1'' ''T1'' ''B'', example_row ''S1'' ''T2'' ''C'']"
  let ?req = "set (required_labels example_config)"
  from consolidation_completeness[OF example_config_wf, of example_table]
  have iff: "sid \<in> study_id ` set ?out \<longleftrightarrow> study_labels sid example_table \<inter> ?req = ?req" for sid
    by (simp only: example_selection) blast
  have "''S1'' \<in> study_id ` set ?out" by (simp add: example_row_def)
  then have s1: "study_labels ''S1'' example_table \<inter> ?req = ?req" using iff by blast
  have "''S2'' \<notin> study_id ` set ?out" by (simp add: example_row_def)
  then have s2: "study_labels ''S2'' example_table \<inter> ?req \<noteq> ?req" using iff by blast
  from example_config_wf example_selection s1 s2 show ?thesis by blast
qed

text \<open>
  Claim C3. For a study that passes completeness (its labels, intersected with the
  required labels, are all the required labels) and a required label, consolidation
  returns a table in which the only row of the study with that label is the last
  record with that label among the study's records in the stored order of the
  metadata table.
\<close>

theorem last_record_selected:
  assumes "wf_config cfg"
    and "study_labels sid metadata \<inter> set (required_labels cfg) = set (required_labels cfg)"
    and "t \<in> set (required_labels cfg)"
  shows "\<exists>out. select_single_series_per_type cfg metadata = Inr out \<and>
           rows_with_label t (study_rows sid out) =
             [last (rows_with_label t (study_rows sid metadata))]"
proof -
  let ?ts = "required_labels cfg"
  let ?grp = "study_rows sid metadata"
  obtain out where out: "select_single_series_per_type cfg metadata = Inr out"
    by (simp add: select_result)
  from assms(2) have c: "complete_for ?ts ?grp" by (simp add: complete_for_labels)
  from assms(3) have "?ts \<noteq> []" by auto
  with c have "sid \<in> study_id ` set metadata" by (rule complete_study_present)
  with c have rows: "study_rows sid out = picks ?ts ?grp"
    by (simp add: study_rows_select[OF out])
  from assms(1) have d: "distinct ?ts" by (simp add: wf_config_def required_labels_def)
  from d c assms(3) have "rows_with_label t (picks ?ts ?grp) = [last (rows_with_label t ?grp)]"
    by (rule rows_with_label_picks)
  with out rows show ?thesis by simp
qed

theorem last_record_selected_witness:
  "wf_config example_config \<and>
   study_labels ''S1'' example_table \<inter> set (required_labels example_config)
     = set (required_labels example_config) \<and>
   rows_with_label ''T1'' (study_rows ''S1'' example_table)
     = [example_row ''S1'' ''T1'' ''A'', example_row ''S1'' ''T1'' ''B''] \<and>
   (\<exists>out. select_single_series_per_type example_config example_table = Inr out \<and>
      rows_with_label ''T1'' (study_rows ''S1'' out) = [example_row ''S1'' ''T1'' ''B''])"
proof -
  have grp: "rows_with_label ''T1'' (study_rows ''S1'' example_table)
     = [example_row ''S1'' ''T1'' ''A'', example_row ''S1'' ''T1'' ''B'']"
    by (simp add: rows_with_label_def study_rows_def example_table_def example_row_def)
  have req: "required_labels example_config = [''T1'', ''T2'']"
    by (simp add: required_labels_def example_config_def)
  have lab: "study_labels ''S1'' example_table = {''T1'', ''T2'', ''unknown''}"
    by (auto simp: study_labels_def study_rows_def example_table_def example_row_def)
  have c: "study_labels ''S1'' example_table \<inter> set (required_labels example_config)
     = set (required_labels example_config)"
    unfolding lab req by auto
  have t: "''T1'' \<in> set (required_labels example_config)" by (simp add: req)
  from last_record_selected[OF example_config_wf c t]
  have "\<exists>out. select_single_series_per_type example_config example_table = Inr out \<and>
      rows_with_label ''T1'' (study_rows ''S1'' out) = [example_row ''S1'' ''T1'' ''B'']"
    by (simp only: grp) simp
  with example_config_wf c grp show ?thesis by blast
qed

text \<open>
  Claim C8. The rows of a study in the consolidated table are as many as the required
  labels; their labels are pairwise distinct and are exactly the required labels.
\<close>

theorem one_record_per_required_label:
  assumes "wf_config cfg"
    and "select_single_series_per_type cfg metadata = Inr out"
    and "sid \<in> study_id ` set out"
  shows "length (study_rows sid out) = length (required_labels cfg) \<and>
         distinct (map generic_sequence_label (study_rows sid out)) \<and>
         set (map generic_sequence_label (study_rows sid out)) = set (required_labels cfg)"
proof -
  let ?ts = "required_labels cfg"
  let ?grp = "study_rows sid metadata"
  from assms(3) have "study_rows sid out \<noteq> []" by (simp add: study_rows_nonempty)
  then have c: "complete_for ?ts ?grp" and rows: "study_rows sid out = picks ?ts ?grp"
    by (auto simp: study_rows_select[OF assms(2)] split: if_splits)
  have m: "map generic_sequence_label (study_rows sid out) = ?ts"
    unfolding rows using c by (rule map_label_picks)
  from assms(1) have d: "distinct ?ts" by (simp add: wf_config_def required_labels_def)
  have "length (study_rows sid out) = length ?ts"
    using arg_cong[OF m, of length] by simp
  with m d show ?thesis by simp
qed

theorem one_record_per_required_label_witness:
  "wf_config example_config \<and>
   length (study_rows ''S1'' [example_row ''S1'' ''T1'' ''B'', example_row ''S1'' ''T2'' ''C'']) = 2 \<and>
   set (map generic_sequence_label
          (study_rows ''S1'' [example_row ''S1'' ''T1'' ''B'', example_row ''S1'' ''T2'' ''C'']))
     = {''T1'', ''T2''}"
proof -
  let ?out = "[example_row ''S1'' ''T1'' ''B'', example_row ''S1'' ''T2'' ''C'']"
  have sid: "''S1'' \<in> study_id ` set ?out" by (simp add: example_row_def)
  have req: "required_labels example_config = [''T1'', ''T2'']"
    by (simp add: required_labels_def example_config_def)
  from one_record_per_required_label[OF example_config_wf example_selection sid]
  have "length (study_rows ''S1'' ?out) = 2 \<and>
        set (map generic_sequence_label (study_rows ''S1'' ?out)) = {''T1'', ''T2''}"
    by (simp add: req)
  with example_config_wf show ?thesis by blast
qed

subsection \<open>Normalisation of series descriptions\<close>

lemma str_replace_space: "str_replace '' '' [] d = filter (\<lambda>c. c \<noteq> CHR '' '') d"
  by (induction d) simp_all

lemma and_then_Inr: "and_then m f = Inr y \<longleftrightarrow> (\<exists>x. m = Inr x \<and> f x = Inr y)"
  by (cases m) (simp_all add: and_then_def)

lemma extract_label:
  assumes "GetMetaData rd 0 (dicom_tags cfg ''patient_id'') = Inr pid"
    and "GetMetaData rd 0 (dicom_tags cfg ''series_description'') = Inr descr"
    and "extract_metadata_from_reader cfg os rd img path table base_path out = (out', Inr r)"
  shows "generic_sequence_label r =
           (case table (pid, filter (\<lambda>c. c \<noteq> CHR '' '') descr) of
              Some l \<Rightarrow> l | None \<Rightarrow> ''unknown'')"
  using assms(3)
  by (cases "table (pid, filter (\<lambda>c. c \<noteq> CHR '' '') descr)")
     (auto simp: extract_metadata_from_reader_def assms(1,2) loc_def str_replace_space and_then_Inr)

lemma example_extract:
  "extract_metadata_from_reader example_config example_os example_reader example_image
       ''/data/P1/S1/t1'' example_lookup ''/data'' []
     = ([], Inr \<lparr> patient_id = ''P1'', study_id = ''S1'', series_id = ''1.2.3'',
                  scanner_type = ''MR'', scanner_manufacturer = ''ACME'',
                  scanner_model = ''M1'', magnetic_field_strength = ''3'',
                  series_description = ''T1 AX'', generic_sequence_label = ''T1'',
                  num_dicom_files = 2, num_loaded_slices = 1, size_vol = (2, 2, 1),
                  pixel_spacing = (1, 1, 3), folder_path = ''P1/S1/t1'' \<rparr>)"
  by code_simp

lemma example_lookup_T1: "example_lookup (''P1'', ''T1AX'') = Some ''T1''"
  by code_simp

text \<open>
  Claim C5, as amended. The normalisation applied before lookup is
  \<open>replace(' ', '')\<close>: it deletes every space character (U+0020) and nothing else, so
  tabs, line feeds and any other whitespace stay in the description. This is the
  normalisation of the descriptions when the lookup table is built (before the first
  data row is dropped), and of the description read from the series when the lookup
  key is formed: the label of an extracted record is the table's entry at (patient
  id, description without its spaces), or \<open>unknown\<close> when there is none.
\<close>

theorem normalization_removes_spaces_only:
  "str_replace '' '' [] d = filter (\<lambda>c. c \<noteq> CHR '' '') d \<and>
   load_series_descriptions os series_descriptions_path =
     map_of (map (\<lambda>(p, d, l). ((p, filter (\<lambda>c. c \<noteq> CHR '' '') d), l))
               (drop 1 (read_excel os series_descriptions_path))) \<and>
   (GetMetaData rd 0 (dicom_tags cfg ''patient_id'') = Inr pid \<and>
    GetMetaData rd 0 (dicom_tags cfg ''series_description'') = Inr descr \<and>
    extract_metadata_from_reader cfg os rd img path table base_path out = (out', Inr r) \<longrightarrow>
      generic_sequence_label r =
        (case table (pid, filter (\<lambda>c. c \<noteq> CHR '' '') descr) of
           Some l \<Rightarrow> l | None \<Rightarrow> ''unknown''))"
proof (intro conjI impI)
  show "str_replace '' '' [] d = filter (\<lambda>c. c \<noteq> CHR '' '') d"
    by (rule str_replace_space)
  show "load_series_descriptions os series_descriptions_path =
     map_of (map (\<lambda>(p, d, l). ((p, filter (\<lambda>c. c \<noteq> CHR '' '') d), l))
               (drop 1 (read_excel os series_descriptions_path)))"
    by (simp add: load_series_descriptions_def str_replace_space drop_map case_prod_unfold comp_def)
next
  assume "GetMetaData rd 0 (dicom_tags cfg ''patient_id'') = Inr pid \<and>
    GetMetaData rd 0 (dicom_tags cfg ''series_description'') = Inr descr \<and>
    extract_metadata_from_reader cfg os rd img path table base_path out = (out', Inr r)"
  then show "generic_sequence_label r =
        (case table (pid, filter (\<lambda>c. c \<noteq> CHR '' '') descr) of
           Some l \<Rightarrow> l | None \<Rightarrow> ''unknown'')"
    using extract_label by blast
qed

theorem normalization_removes_spaces_only_witness:
  "str_replace '' '' [] ''T1 AX'' = ''T1AX'' \<and>
   example_lookup (''P1'', ''T1AX'') = Some ''T1'' \<and>
   GetMetaData example_reader 0 (dicom_tags example_config ''series_description'') = Inr ''T1 AX'' \<and>
   (\<exists>out r. extract_metadata_from_reader example_config example_os example_reader example_image
       ''/data/P1/S1/t1'' example_lookup ''/data'' [] = (out, Inr r) \<and>
     generic_sequence_label r = ''T1'')"
proof -
  have pid: "GetMetaData example_reader 0 (dicom_tags example_config ''patient_id'') = Inr ''P1''"
    by (simp add: example_reader_def example_config_def example_tags_def)
  have descr: "GetMetaData example_reader 0 (dicom_tags example_config ''series_description'') = Inr ''T1 AX''"
    by (simp add: example_reader_def example_config_def example_tags_def)
  note inst = normalization_removes_spaces_only[of "''T1 AX''" example_os "''lookup.xlsx''"
      example_reader example_config "''P1''" "''T1 AX''" example_image "''/data/P1/S1/t1''"
      example_lookup "''/data''" "[]" "[]"]
  from inst have n: "str_replace '' '' [] ''T1 AX'' = ''T1AX''" by simp
  from inst pid descr example_extract
  have "generic_sequence_label \<lparr> patient_id = ''P1'', study_id = ''S1'', series_id = ''1.2.3'',
                  scanner_type = ''MR'', scanner_manufacturer = ''ACME'',
                  scanner_model = ''M1'', magnetic_field_strength = ''3'',
                  series_description = ''T1 AX'', generic_sequence_label = ''T1'',
                  num_dicom_files = 2, num_loaded_slices = 1, size_vol = (2, 2, 1),
                  pixel_spacing = (1, 1, 3), folder_path = ''P1/S1/t1'' \<rparr>
        = (case example_lookup (''P1'', filter (\<lambda>c. c \<noteq> CHR '' '') ''T1 AX'') of
             Some l \<Rightarrow> l | None \<Rightarrow> ''unknown'')"
    by blast
  with n example_lookup_T1 descr example_extract show ?thesis by simp
qed

text \<open>
  The claim as written fails: a tab is whitespace, and it survives the normalisation
  of the description \<open>T1<TAB>AX\<close>.
\<close>

theorem normalization_keeps_tab:
  "isspace (CHR 0x09) \<and>
   CHR 0x09 \<in> set (str_replace '' '' [] [CHR ''T'', CHR ''1'', CHR 0x09, CHR ''A'', CHR ''X''])"
  by (simp add: isspace_def)

subsection \<open>The summary written after an ingestion run\<close>

lemma empty_run:
  "fst (process_all_dicom_series shipped_modules example_lib empty_os example_clock ''/data''
          example_lookup ''/out'' example_world)
     = Inr ([], \<lparr>processed = 0, errors = 0, warnings = 0\<rparr>, ''/out/processing_log.txt'')"
  by code_simp

text \<open>
  Claim C10. \<open>log_processing_summary\<close> leaves with ZeroDivisionError exactly when
  \<open>processed\<close> and \<open>errors\<close> are both zero: the success rate divides by their sum
  without a guard. The three counter lines have been written to the log by then.
\<close>

theorem summary_division_by_zero:
  "snd (log_processing_summary fmt st lg) = Inl ZeroDivisionError
     \<longleftrightarrow> processed st = 0 \<and> errors st = 0"
  by (simp add: log_processing_summary_def true_div_def Let_def)

theorem summary_division_by_zero_witness:
  "dicom_dirs empty_os ''/data'' = [] \<and>
   fst (process_all_dicom_series shipped_modules example_lib empty_os example_clock ''/data''
          example_lookup ''/out'' example_world)
     = Inr ([], \<lparr>processed = 0, errors = 0, warnings = 0\<rparr>, ''/out/processing_log.txt'') \<and>
   snd (log_processing_summary example_fmt \<lparr>processed = 0, errors = 0, warnings = 0\<rparr> [])
     = Inl ZeroDivisionError \<and>
   snd (log_processing_summary example_fmt \<lparr>processed = 2, errors = 1, warnings = 1\<rparr> [])
     \<noteq> Inl ZeroDivisionError"
proof -
  have d: "dicom_dirs empty_os ''/data'' = []" by code_simp
  have z: "snd (log_processing_summary example_fmt \<lparr>processed = 0, errors = 0, warnings = 0\<rparr> [])
     = Inl ZeroDivisionError"
    using summary_division_by_zero[of example_fmt "\<lparr>processed = 0, errors = 0, warnings = 0\<rparr>" "[]"]
    by simp
  have nz: "snd (log_processing_summary example_fmt \<lparr>processed = 2, errors = 1, warnings = 1\<rparr> [])
     \<noteq> Inl ZeroDivisionError"
    using summary_division_by_zero[of example_fmt "\<lparr>processed = 2, errors = 1, warnings = 1\<rparr>" "[]"]
    by simp
  from d empty_run z nz show ?thesis by blast
qed

subsection \<open>The ingestion loop\<close>

lemma handle_exception_eq:
  "handle_exception clock path e w =
     ((None, Some (str_error e)),
      w\<lparr>now_calls := now_calls w + 1,
        log_text := log_text w @ error_log_line (clock (now_calls w)) path e\<rparr>)"
  by (simp add: handle_exception_def timestamp_now_def)

text \<open>When the import fails, the loop body raises and leaves every effect undone.\<close>

lemma loop_body_import_error:
  assumes "import_from modules ''metadata_extractor'' = Inl e"
  shows "loop_body modules lib os clock table dicom_path path (metadata, st, w) = (Inl e, w)"
  by (simp add: loop_body_def process_dicom_series_def assms)

lemma dirs_loop_import_error:
  assumes "import_from modules ''metadata_extractor'' = Inl e" "dirs \<noteq> []"
  shows "dirs_loop modules lib os clock table dicom_path dirs (metadata, st, w) = (Inl e, w)"
  using assms(2) by (cases dirs) (simp_all add: loop_body_import_error[OF assms(1)])

lemma process_all_import_error:
  assumes "import_from modules ''metadata_extractor'' = Inl e"
    and "dicom_dirs os dicom_path \<noteq> []"
  shows "fst (process_all_dicom_series modules lib os clock dicom_path table output_path w) = Inl e"
  by (simp add: process_all_dicom_series_def timestamp_now_def Let_def
      dirs_loop_import_error[OF assms])

text \<open>When the import resolves to \<open>xtr\<close>, the four outcomes of one directory.\<close>

lemma loop_body_load_error:
  assumes "import_from modules ''metadata_extractor'' = Inr xtr"
    and "load_dicom_image_from_folder lib create_dicom_reader path = Inl e"
  shows "loop_body modules lib os clock table dicom_path path (metadata, st, w) =
     (Inr (metadata, st\<lparr>errors := errors st + 1\<rparr>),
      w\<lparr>now_calls := now_calls w + 1,
        log_text := log_text w @ error_log_line (clock (now_calls w)) path e\<rparr>)"
  by (simp add: loop_body_def process_dicom_series_def process_dicom_series_try_def assms
      handle_exception_eq)

lemma loop_body_extract_error:
  assumes "import_from modules ''metadata_extractor'' = Inr xtr"
    and "load_dicom_image_from_folder lib create_dicom_reader path = Inr (img, rd)"
    and "xtr rd img path table dicom_path (stdout w) = (out, Inl e)"
  shows "loop_body modules lib os clock table dicom_path path (metadata, st, w) =
     (Inr (metadata, st\<lparr>errors := errors st + 1\<rparr>),
      w\<lparr>stdout := out, now_calls := now_calls w + 1,
        log_text := log_text w @ error_log_line (clock (now_calls w)) path e\<rparr>)"
  by (simp add: loop_body_def process_dicom_series_def process_dicom_series_try_def assms
      handle_exception_eq)

lemma loop_body_warning:
  assumes "import_from modules ''metadata_extractor'' = Inr xtr"
    and "load_dicom_image_from_folder lib create_dicom_reader path = Inr (img, rd)"
    and "xtr rd img path table dicom_path (stdout w) = (out, Inr md)"
    and "length (listdir os path) \<noteq> snd (snd (GetSize img))"
  shows "loop_body modules lib os clock table dicom_path path (metadata, st, w) =
     (Inr (metadata @ [md], st\<lparr>processed := processed st + 1, warnings := warnings st + 1\<rparr>),
      w\<lparr>stdout := out, now_calls := now_calls w + 1,
        log_text := log_text w @ warning_log_line (clock (now_calls w)) path
                      (length (listdir os path)) (snd (snd (GetSize img)))\<rparr>)"
  by (simp add: loop_body_def process_dicom_series_def process_dicom_series_try_def assms
      timestamp_now_def)

lemma loop_body_success:
  assumes "import_from modules ''metadata_extractor'' = Inr xtr"
    and "load_dicom_image_from_folder lib create_dicom_reader path = Inr (img, rd)"
    and "xtr rd img path table dicom_path (stdout w) = (out, Inr md)"
    and "length (listdir os path) = snd (snd (GetSize img))"
  shows "loop_body modules lib os clock table dicom_path path (metadata, st, w) =
     (Inr (metadata @ [md], st\<lparr>processed := processed st + 1\<rparr>), w\<lparr>stdout := out\<rparr>)"
  by (simp add: loop_body_def process_dicom_series_def process_dicom_series_try_def assms)

text \<open>A tag that cannot be read makes the extractor raise, which the loop counts as an error.\<close>

lemma extract_missing_tag:
  assumes "\<not> all_tags_present cfg rd"
  shows "\<exists>out' e. extract_metadata_from_reader cfg os rd img path table base_path out = (out', Inl e)"
  using assms
  unfolding all_tags_present_def tag_names_def extract_metadata_from_reader_def and_then_def loc_def
  by (auto split: sum.splits option.splits)

lemma loop_body_missing_tag:
  assumes imp: "import_from modules ''metadata_extractor'' = Inr (extract_metadata_from_reader cfg os)"
    and load: "load_dicom_image_from_folder lib create_dicom_reader path = Inr (img, rd)"
    and tags: "\<not> all_tags_present cfg rd"
  shows "\<exists>w'. loop_body modules lib os clock table dicom_path path (metadata, st, w)
                = (Inr (metadata, st\<lparr>errors := errors st + 1\<rparr>), w')"
proof -
  from extract_missing_tag[OF tags] obtain out' e where
    "extract_metadata_from_reader cfg os rd img path table dicom_path (stdout w) = (out', Inl e)"
    by blast
  from loop_body_extract_error[OF imp load this] show ?thesis by simp
qed

lemma shipped_import_fails:
  "import_from shipped_modules ''metadata_extractor''
     = Inl (ModuleNotFoundError ''metadata_extractor'')"
  by (simp add: import_from_def shipped_modules_def repository_modules_def)

lemma patched_import_resolves:
  "import_from patched_modules ''metadata_extractor''
     = Inr (extract_metadata_from_reader example_config example_os)"
  by (simp add: import_from_def patched_modules_def)

lemma example_dirs:
  "dicom_dirs example_os ''/data'' = [''/data/P1/S1/t1'', ''/data/P1/S1/t2'', ''/data/P1/S1/bad'']"
  by code_simp

lemma example_shipped_run:
  "process_all_dicom_series shipped_modules example_lib example_os example_clock ''/data''
       example_lookup ''/out'' example_world
     = (Inl (ModuleNotFoundError ''metadata_extractor''),
        \<lparr>log_text = log_header ''2024-01-01 00:00:00'',
          stdout = [''Found 3 DICOM directories to process...'',
                    ''Logging to: /out/processing_log.txt''],
          now_calls = 1\<rparr>)"
  by code_simp

lemma example_patched_t1:
  "fst (process_dicom_series patched_modules example_lib example_os example_clock
          ''/data/P1/S1/t1'' example_lookup ''/data'' example_world)
     = Inr (Some \<lparr> patient_id = ''P1'', study_id = ''S1'', series_id = ''1.2.3'',
                    scanner_type = ''MR'', scanner_manufacturer = ''ACME'',
                    scanner_model = ''M1'', magnetic_field_strength = ''3'',
                    series_description = ''T1 AX'', generic_sequence_label = ''T1'',
                    num_dicom_files = 2, num_loaded_slices = 1, size_vol = (2, 2, 1),
                    pixel_spacing = (1, 1, 3), folder_path = ''P1/S1/t1'' \<rparr>,
            Some ''warning'')"
  by code_simp

text \<open>
  Claim C2 fails on the code. The per-directory \<open>try\<close> of \<open>process_dicom_series\<close> does
  classify the outcomes of a directory as the claim says (the four lemmas above), but
  the import that precedes it names a module the repository does not have. With the
  repository's modules, the run over the example tree, which has three candidate
  directories, writes the header of the log and then leaves with ModuleNotFoundError
  at the first directory: no directory is classified and no final statistics are
  written. Besides, the count compared with the slices is the number of all entries
  of the directory: with the import repaired, the first directory (one image file,
  one slice, one text file) is classified as a warning.
\<close>

theorem run_aborts_at_first_directory:
  "import_from shipped_modules ''metadata_extractor''
     = Inl (ModuleNotFoundError ''metadata_extractor'') \<and>
   dicom_dirs example_os ''/data''
     = [''/data/P1/S1/t1'', ''/data/P1/S1/t2'', ''/data/P1/S1/bad''] \<and>
   process_all_dicom_series shipped_modules example_lib example_os example_clock ''/data''
       example_lookup ''/out'' example_world
     = (Inl (ModuleNotFoundError ''metadata_extractor''),
        \<lparr>log_text = log_header ''2024-01-01 00:00:00'',
          stdout = [''Found 3 DICOM directories to process...'',
                    ''Logging to: /out/processing_log.txt''],
          now_calls = 1\<rparr>) \<and>
   filter (\<lambda>f. endswith f ''.dcm'') (listdir example_os ''/data/P1/S1/t1'') = [''IM1.dcm''] \<and>
   snd (snd (GetSize example_image)) = 1 \<and>
   (\<exists>r. fst (process_dicom_series patched_modules example_lib example_os example_clock
          ''/data/P1/S1/t1'' example_lookup ''/data'' example_world)
      = Inr (Some r, Some ''warning''))"
proof -
  have f: "filter (\<lambda>f. endswith f ''.dcm'') (listdir example_os ''/data/P1/S1/t1'') = [''IM1.dcm'']"
    by (simp add: example_os_def endswith_def)
  have g: "snd (snd (GetSize example_image)) = 1" by (simp add: example_image_def)
  from shipped_import_fails example_dirs example_shipped_run f g example_patched_t1
  show ?thesis by simp
qed


subsection \<open>Extraction: unmapped series and the file count\<close>

lemma and_then_ok: "m = Inr x \<Longrightarrow> and_then m f = f x"
  by (simp add: and_then_def)

lemma extract_miss:
  assumes tags: "all_tags_present cfg rd"
    and pid: "GetMetaData rd 0 (dicom_tags cfg ''patient_id'') = Inr pid"
    and descr: "GetMetaData rd 0 (dicom_tags cfg ''series_description'') = Inr descr"
    and miss: "table (pid, str_replace '' '' [] descr) = None"
  shows "\<exists>r. extract_metadata_from_reader cfg os rd img path table base_path out
             = (out @ [warning_line pid descr], Inr r) \<and>
           generic_sequence_label r = ''unknown'' \<and>
           patient_id r = pid \<and> series_description r = descr \<and>
           GetMetaData rd 0 (dicom_tags cfg ''study_id'') = Inr (study_id r) \<and>
           GetMetaData rd 0 (dicom_tags cfg ''series_id'') = Inr (series_id r) \<and>
           GetMetaData rd 0 (dicom_tags cfg ''scanner_type'') = Inr (scanner_type r) \<and>
           GetMetaData rd 0 (dicom_tags cfg ''scanner_manufacturer'')
             = Inr (scanner_manufacturer r) \<and>
           GetMetaData rd 0 (dicom_tags cfg ''scanner_model'') = Inr (scanner_model r) \<and>
           GetMetaData rd 0 (dicom_tags cfg ''magnetic_field_strength'')
             = Inr (magnetic_field_strength r) \<and>
           num_dicom_files r = length (listdir os path) \<and>
           num_loaded_slices r = snd (snd (GetSize img)) \<and>
           size_vol r = GetSize img \<and> pixel_spacing r = GetSpacing img \<and>
           folder_path r = relpath os path base_path"
proof -
  from tags obtain study where 1: "GetMetaData rd 0 (dicom_tags cfg ''study_id'') = Inr study"
    by (auto simp: all_tags_present_def tag_names_def)
  from tags obtain series where 2: "GetMetaData rd 0 (dicom_tags cfg ''series_id'') = Inr series"
    by (auto simp: all_tags_present_def tag_names_def)
  from tags obtain stype where 3: "GetMetaData rd 0 (dicom_tags cfg ''scanner_type'') = Inr stype"
    by (auto simp: all_tags_present_def tag_names_def)
  from tags obtain manu where 4: "GetMetaData rd 0 (dicom_tags cfg ''scanner_manufacturer'') = Inr manu"
    by (auto simp: all_tags_present_def tag_names_def)
  from tags obtain model where 5: "GetMetaData rd 0 (dicom_tags cfg ''scanner_model'') = Inr model"
    by (auto simp: all_tags_present_def tag_names_def)
  from tags obtain field where 6: "GetMetaData rd 0 (dicom_tags cfg ''magnetic_field_strength'') = Inr field"
    by (auto simp: all_tags_present_def tag_names_def)
  show ?thesis
    by (simp add: extract_metadata_from_reader_def pid descr loc_def miss and_then_def
        1 2 3 4 5 6)
qed

lemma extract_ok_any_table:
  assumes tags: "all_tags_present cfg rd"
  shows "\<exists>out' r. extract_metadata_from_reader cfg os rd img path table base_path out
             = (out', Inr r)"
proof -
  from tags obtain pid where p: "GetMetaData rd 0 (dicom_tags cfg ''patient_id'') = Inr pid"
    by (auto simp: all_tags_present_def tag_names_def)
  from tags obtain descr where d: "GetMetaData rd 0 (dicom_tags cfg ''series_description'') = Inr descr"
    by (auto simp: all_tags_present_def tag_names_def)
  from tags obtain study where 1: "GetMetaData rd 0 (dicom_tags cfg ''study_id'') = Inr study"
    by (auto simp: all_tags_present_def tag_names_def)
  from tags obtain series where 2: "GetMetaData rd 0 (dicom_tags cfg ''series_id'') = Inr series"
    by (auto simp: all_tags_present_def tag_names_def)
  from tags obtain stype where 3: "GetMetaData rd 0 (dicom_tags cfg ''scanner_type'') = Inr stype"
    by (auto simp: all_tags_present_def tag_names_def)
  from tags obtain manu where 4: "GetMetaData rd 0 (dicom_tags cfg ''scanner_manufacturer'') = Inr manu"
    by (auto simp: all_tags_present_def tag_names_def)
  from tags obtain model where 5: "GetMetaData rd 0 (dicom_tags cfg ''scanner_model'') = Inr model"
    by (auto simp: all_tags_present_def tag_names_def)
  from tags obtain field where 6: "GetMetaData rd 0 (dicom_tags cfg ''magnetic_field_strength'') = Inr field"
    by (auto simp: all_tags_present_def tag_names_def)
  show ?thesis
    by (cases "table (pid, str_replace '' '' [] descr)")
       (simp_all add: extract_metadata_from_reader_def p d loc_def
        and_then_ok[OF 1] and_then_ok[OF 2] and_then_ok[OF 3] and_then_ok[OF 4]
        and_then_ok[OF 5] and_then_ok[OF 6])
qed

text \<open>
  The statistics after one directory whose series decodes and has all its tags, when the
  import resolves to the repository's extractor.
\<close>

lemma loop_body_stats_loaded:
  assumes imp: "import_from modules ''metadata_extractor'' = Inr (extract_metadata_from_reader cfg os)"
    and load: "load_dicom_image_from_folder lib create_dicom_reader path = Inr (img, rd)"
    and tags: "all_tags_present cfg rd"
  shows "\<exists>records w'.
           loop_body modules lib os clock table dicom_path path (metadata, st, w)
             = (Inr (records,
                  (if length (listdir os path) \<noteq> snd (snd (GetSize img))
                   then st\<lparr>processed := processed st + 1, warnings := warnings st + 1\<rparr>
                   else st\<lparr>processed := processed st + 1\<rparr>)), w')"
proof -
  from extract_ok_any_table[OF tags] obtain out' r where
    x: "extract_metadata_from_reader cfg os rd img path table dicom_path (stdout w) = (out', Inr r)"
    by blast
  show ?thesis
  proof (cases "length (listdir os path) = snd (snd (GetSize img))")
    case True
    from loop_body_success[OF imp load x True] show ?thesis using True by simp
  next
    case False
    from loop_body_warning[OF imp load x False] show ?thesis using False by simp
  qed
qed

text \<open>
  Claim C4. A series that has all its tags and whose key (patient id, description
  without spaces) is not in the lookup table: \<open>extract_metadata_from_reader\<close> prints
  the warning and returns the record, whose label is \<open>unknown\<close> and whose other fields
  are the values read. In the loop, when the import of \<open>process_dicom_series\<close>
  resolves to this extractor and the series decodes, the record is appended,
  \<open>processed\<close> grows by one, \<open>errors\<close> is unchanged and \<open>warnings\<close> grows only if the
  entry count differs from the slice count; the statistics are those that any other
  lookup table gives, so the miss counts nowhere. When the import fails, the loop
  body raises with the state untouched.
\<close>

theorem unmapped_series_kept:
  assumes tags: "all_tags_present cfg rd"
    and pid: "GetMetaData rd 0 (dicom_tags cfg ''patient_id'') = Inr pid"
    and descr: "GetMetaData rd 0 (dicom_tags cfg ''series_description'') = Inr descr"
    and miss: "table (pid, str_replace '' '' [] descr) = None"
  shows "\<exists>r.
           extract_metadata_from_reader cfg os rd img path table dicom_path out
             = (out @ [warning_line pid descr], Inr r) \<and>
           generic_sequence_label r = ''unknown'' \<and>
           patient_id r = pid \<and> series_description r = descr \<and>
           GetMetaData rd 0 (dicom_tags cfg ''study_id'') = Inr (study_id r) \<and>
           GetMetaData rd 0 (dicom_tags cfg ''series_id'') = Inr (series_id r) \<and>
           GetMetaData rd 0 (dicom_tags cfg ''scanner_type'') = Inr (scanner_type r) \<and>
           GetMetaData rd 0 (dicom_tags cfg ''scanner_manufacturer'')
             = Inr (scanner_manufacturer r) \<and>
           GetMetaData rd 0 (dicom_tags cfg ''scanner_model'') = Inr (scanner_model r) \<and>
           GetMetaData rd 0 (dicom_tags cfg ''magnetic_field_strength'')
             = Inr (magnetic_field_strength r) \<and>
           num_dicom_files r = length (listdir os path) \<and>
           num_loaded_slices r = snd (snd (GetSize img)) \<and>
           size_vol r = GetSize img \<and> pixel_spacing r = GetSpacing img \<and>
           folder_path r = relpath os path dicom_path \<and>
           (import_from modules ''metadata_extractor''
                = Inr (extract_metadata_from_reader cfg os) \<and>
            load_dicom_image_from_folder lib create_dicom_reader path = Inr (img, rd) \<and>
            out = stdout w \<longrightarrow>
              (\<exists>st' w'.
                 loop_body modules lib os clock table dicom_path path (metadata, st, w)
                   = (Inr (metadata @ [r], st'), w') \<and>
                 stdout w' = stdout w @ [warning_line pid descr] \<and>
                 processed st' = processed st + 1 \<and>
                 errors st' = errors st \<and>
                 warnings st' = (if length (listdir os path) \<noteq> snd (snd (GetSize img))
                                 then warnings st + 1 else warnings st) \<and>
                 (\<forall>table'. \<exists>records w''.
                    loop_body modules lib os clock table' dicom_path path (metadata, st, w)
                      = (Inr (records, st'), w'')))) \<and>
           (\<forall>e. import_from modules ''metadata_extractor'' = Inl e \<longrightarrow>
              loop_body modules lib os clock table dicom_path path (metadata, st, w)
                = (Inl e, w))"
proof -
  from extract_miss[where table = table, OF tags pid descr miss, of os img path dicom_path out]
  obtain r where
    x: "extract_metadata_from_reader cfg os rd img path table dicom_path out
          = (out @ [warning_line pid descr], Inr r)"
    and pin: "generic_sequence_label r = ''unknown''"
      "patient_id r = pid" "series_description r = descr"
      "GetMetaData rd 0 (dicom_tags cfg ''study_id'') = Inr (study_id r)"
      "GetMetaData rd 0 (dicom_tags cfg ''series_id'') = Inr (series_id r)"
      "GetMetaData rd 0 (dicom_tags cfg ''scanner_type'') = Inr (scanner_type r)"
      "GetMetaData rd 0 (dicom_tags cfg ''scanner_manufacturer'') = Inr (scanner_manufacturer r)"
      "GetMetaData rd 0 (dicom_tags cfg ''scanner_model'') = Inr (scanner_model r)"
      "GetMetaData rd 0 (dicom_tags cfg ''magnetic_field_strength'')
         = Inr (magnetic_field_strength r)"
      "num_dicom_files r = length (listdir os path)"
      "num_loaded_slices r = snd (snd (GetSize img))"
      "size_vol r = GetSize img" "pixel_spacing r = GetSpacing img"
      "folder_path r = relpath os path dicom_path"
    by blast
  have loop: "\<exists>st' w'.
       loop_body modules lib os clock table dicom_path path (metadata, st, w)
         = (Inr (metadata @ [r], st'), w') \<and>
       stdout w' = stdout w @ [warning_line pid descr] \<and>
       processed st' = processed st + 1 \<and>
       errors st' = errors st \<and>
       warnings st' = (if length (listdir os path) \<noteq> snd (snd (GetSize img))
                       then warnings st + 1 else warnings st) \<and>
       (\<forall>table'. \<exists>records w''.
          loop_body modules lib os clock table' dicom_path path (metadata, st, w)
            = (Inr (records, st'), w''))"
    if imp: "import_from modules ''metadata_extractor'' = Inr (extract_metadata_from_reader cfg os)"
      and load: "load_dicom_image_from_folder lib create_dicom_reader path = Inr (img, rd)"
      and o: "out = stdout w"
  proof -
    note any = loop_body_stats_loaded[OF imp load tags, of clock _ dicom_path metadata st w]
    show ?thesis
    proof (cases "length (listdir os path) = snd (snd (GetSize img))")
      case True
      from loop_body_success[OF imp load x[unfolded o] True, of clock metadata st]
      show ?thesis using True any by simp
    next
      case False
      from loop_body_warning[OF imp load x[unfolded o] False, of clock metadata st]
      show ?thesis using False any by simp
    qed
  qed
  have abort: "\<forall>e. import_from modules ''metadata_extractor'' = Inl e \<longrightarrow>
      loop_body modules lib os clock table dicom_path path (metadata, st, w) = (Inl e, w)"
    by (simp add: loop_body_import_error)
  from x pin loop abort show ?thesis by blast
qed


lemma example_load_t2:
  "load_dicom_image_from_folder example_lib create_dicom_reader ''/data/P1/S1/t2''
     = Inr (example_image, example_reader2)"
  by (simp add: load_dicom_image_from_folder_def example_lib_def example_reader2_def)

lemma example_tags2_present: "all_tags_present example_config example_reader2"
  by (simp add: all_tags_present_def tag_names_def example_reader2_def example_config_def
      example_tags_def)

lemma example_lookup_miss: "example_lookup (''P1'', str_replace '' '' [] ''T2 FLAIR'') = None"
  by code_simp

theorem unmapped_series_kept_witness:
  "all_tags_present example_config example_reader2 \<and>
   example_lookup (''P1'', str_replace '' '' [] ''T2 FLAIR'') = None \<and>
   import_from patched_modules ''metadata_extractor''
     = Inr (extract_metadata_from_reader example_config example_os) \<and>
   load_dicom_image_from_folder example_lib create_dicom_reader ''/data/P1/S1/t2''
     = Inr (example_image, example_reader2) \<and>
   (\<exists>r st' w'.
      extract_metadata_from_reader example_config example_os example_reader2 example_image
          ''/data/P1/S1/t2'' example_lookup ''/data'' []
        = ([''Warning: No generic sequence label found for patient P1, series T2 FLAIR''], Inr r) \<and>
      generic_sequence_label r = ''unknown'' \<and>
      loop_body patched_modules example_lib example_os example_clock example_lookup ''/data''
          ''/data/P1/S1/t2'' ([], zero_stats, example_world)
        = (Inr ([r], st'), w') \<and>
      stdout w' = [''Warning: No generic sequence label found for patient P1, series T2 FLAIR''] \<and>
      st' = \<lparr>processed = 1, errors = 0, warnings = 0\<rparr>) \<and>
   loop_body shipped_modules example_lib example_os example_clock example_lookup ''/data''
       ''/data/P1/S1/t2'' ([], zero_stats, example_world)
     = (Inl (ModuleNotFoundError ''metadata_extractor''), example_world)"
proof -
  have pid: "GetMetaData example_reader2 0 (dicom_tags example_config ''patient_id'') = Inr ''P1''"
    by (simp add: example_reader2_def example_config_def example_tags_def)
  have descr: "GetMetaData example_reader2 0 (dicom_tags example_config ''series_description'')
      = Inr ''T2 FLAIR''"
    by (simp add: example_reader2_def example_config_def example_tags_def)
  have n: "length (listdir example_os ''/data/P1/S1/t2'') = snd (snd (GetSize example_image))"
    by (simp add: example_os_def example_image_def)
  have o: "[] = stdout example_world" by (simp add: example_world_def)
  note inst = unmapped_series_kept[where table = example_lookup and os = example_os
      and img = example_image and path = "''/data/P1/S1/t2''" and dicom_path = "''/data''"
      and out = "[]" and lib = example_lib and clock = example_clock and metadata = "[]"
      and st = zero_stats and w = example_world,
      OF example_tags2_present pid descr example_lookup_miss]
  from inst[where modules = patched_modules] patched_import_resolves example_load_t2 o
  obtain r st' w' where
    "extract_metadata_from_reader example_config example_os example_reader2 example_image
          ''/data/P1/S1/t2'' example_lookup ''/data'' []
        = ([''Warning: No generic sequence label found for patient P1, series T2 FLAIR''], Inr r)"
    "generic_sequence_label r = ''unknown''"
    "loop_body patched_modules example_lib example_os example_clock example_lookup ''/data''
          ''/data/P1/S1/t2'' ([], zero_stats, example_world)
        = (Inr ([r], st'), w')"
    "stdout w' = [''Warning: No generic sequence label found for patient P1, series T2 FLAIR'']"
    "processed st' = 1" "errors st' = 0" "warnings st' = 0"
    by (auto simp: n zero_stats_def example_world_def warning_line_def)
  moreover from this have "st' = \<lparr>processed = 1, errors = 0, warnings = 0\<rparr>"
    by simp
  moreover from inst[where modules = shipped_modules] shipped_import_fails
  have "loop_body shipped_modules example_lib example_os example_clock example_lookup ''/data''
       ''/data/P1/S1/t2'' ([], zero_stats, example_world)
     = (Inl (ModuleNotFoundError ''metadata_extractor''), example_world)"
    by blast
  ultimately show ?thesis
    using example_tags2_present example_lookup_miss patched_import_resolves example_load_t2
    by blast
qed

text \<open>
  Claim C6 fails on the code. \<open>num_dicom_files\<close> is \<open>len(os.listdir(path))\<close>, the number
  of all entries. In the example directory, which holds one \<open>.dcm\<close> file and a text
  file, the field is 2 although one image file is there; where the import of
  \<open>process_dicom_series\<close> resolves to this extractor, the series of one slice is
  reported with a warning.
\<close>

theorem num_dicom_files_counts_all_entries:
  "listdir example_os ''/data/P1/S1/t1'' = [''IM1.dcm'', ''notes.txt''] \<and>
   filter (\<lambda>f. endswith f ''.dcm'') (listdir example_os ''/data/P1/S1/t1'') = [''IM1.dcm''] \<and>
   (\<exists>out r. extract_metadata_from_reader example_config example_os example_reader example_image
       ''/data/P1/S1/t1'' example_lookup ''/data'' [] = (out, Inr r) \<and>
     num_dicom_files r = 2 \<and> num_loaded_slices r = 1) \<and>
   (\<exists>r. fst (process_dicom_series patched_modules example_lib example_os example_clock
          ''/data/P1/S1/t1'' example_lookup ''/data'' example_world)
      = Inr (Some r, Some ''warning''))"
proof -
  have a: "listdir example_os ''/data/P1/S1/t1'' = [''IM1.dcm'', ''notes.txt'']"
    by (simp add: example_os_def)
  have b: "filter (\<lambda>f. endswith f ''.dcm'') [''IM1.dcm'', ''notes.txt''] = [''IM1.dcm'']"
    by (simp add: endswith_def)
  from a b example_patched_t1 example_extract show ?thesis by simp
qed

subsection \<open>Resampling onto the reference grid\<close>

lemma reference_resampler_eq:
  "reference_resampler img =
     \<lparr> OutputSize = GetSize img, OutputSpacing = GetSpacing img, OutputOrigin = GetOrigin img,
       OutputDirection = GetDirection img, Interpolator = sitkNearestNeighbor \<rparr>"
  by (simp add: reference_resampler_def SetReferenceImage_def new_resample_filter_def)

lemma resampled_same_grid:
  assumes "resample_contract lib"
    and "ResampleExecute lib (reference_resampler ref_img) img = Inr res"
  shows "same_grid res ref_img"
proof -
  from assms(1) obtain res' where
    "ResampleExecute lib (reference_resampler ref_img) img = Inr res'"
    "GetSize res' = OutputSize (reference_resampler ref_img)"
    "GetSpacing res' = OutputSpacing (reference_resampler ref_img)"
    "GetOrigin res' = OutputOrigin (reference_resampler ref_img)"
    "GetDirection res' = OutputDirection (reference_resampler ref_img)"
    unfolding resample_contract_def by blast
  with assms(2) show ?thesis
    by (simp add: same_grid_def reference_resampler_eq)
qed

lemma load_labelled_volume:
  assumes "rows_with_label t grp = [row]" "load_labelled lib pc grp t = Inr img"
  shows "label_volume lib pc grp t img"
  using assms
  by (auto simp: label_volume_def load_labelled_def iloc_first_def rows_with_label_def
      load_dicom_image_from_folder_def split: sum.splits)

lemma load_labelled_decodes:
  assumes "rows_with_label t grp = [row]" "decodes lib pc row"
  shows "\<exists>img. load_labelled lib pc grp t = Inr img"
  using assms
  by (auto simp: decodes_def load_labelled_def iloc_first_def load_dicom_image_from_folder_def)

lemma dict_get_map_of: "dict_get stp t = Inr slot \<longleftrightarrow> map_of stp t = Some slot"
  by (simp add: dict_get_def split: option.splits)

lemma resample_loop_ok:
  assumes c: "resample_contract lib"
    and ok: "\<forall>t \<in> set ks. t \<noteq> ref \<longrightarrow>
               (\<exists>row. rows_with_label t grp = [row]) \<and>
               (\<exists>img. load_labelled lib pc grp t = Inr img) \<and>
               (\<exists>slot. map_of stp t = Some slot)"
  shows "\<exists>ws. resample_loop lib pc stp ref grp dir (reference_resampler ref_img) ks st
                 = (st\<lparr>written := written st @ ws\<rparr>, Inr ()) \<and>
              list_all2 (resampled_write lib pc stp grp dir ref_img)
                (filter (\<lambda>t. t \<noteq> ref) ks) ws \<and>
              list_all (\<lambda>wr. same_grid (snd wr) ref_img) ws"
  using ok
proof (induction ks arbitrary: st)
  case Nil
  show ?case by simp
next
  case (Cons t ks)
  show ?case
  proof (cases "t = ref")
    case True
    from Cons.IH[of st] Cons.prems True show ?thesis by simp
  next
    case False
    from Cons.prems False obtain row img slot where
      u: "rows_with_label t grp = [row]"
      and l: "load_labelled lib pc grp t = Inr img" and d: "map_of stp t = Some slot"
      by auto
    from c obtain res where r: "ResampleExecute lib (reference_resampler ref_img) img = Inr res"
      unfolding resample_contract_def by blast
    let ?w = "(image_output_path dir slot, res)"
    let ?st = "st\<lparr>written := written st @ [?w]\<rparr>"
    from Cons.IH[of ?st] Cons.prems obtain ws where
      ih: "resample_loop lib pc stp ref grp dir (reference_resampler ref_img) ks ?st
             = (?st\<lparr>written := written ?st @ ws\<rparr>, Inr ())"
        "list_all2 (resampled_write lib pc stp grp dir ref_img) (filter (\<lambda>t. t \<noteq> ref) ks) ws"
        "list_all (\<lambda>wr. same_grid (snd wr) ref_img) ws"
      by auto
    have w: "resampled_write lib pc stp grp dir ref_img t ?w"
      unfolding resampled_write_def
      using load_labelled_volume[OF u l] r d
      by (auto simp: reference_resampler_eq image_output_path_def)
    have g: "same_grid res ref_img" using c r by (rule resampled_same_grid)
    have dg: "dict_get stp t = Inr slot" using d by (simp add: dict_get_map_of)
    have "resample_loop lib pc stp ref grp dir (reference_resampler ref_img) (t # ks) st
            = (st\<lparr>written := written st @ (?w # ws)\<rparr>, Inr ())"
      using False l r dg ih(1) by simp
    moreover have "list_all2 (resampled_write lib pc stp grp dir ref_img)
                     (filter (\<lambda>t. t \<noteq> ref) (t # ks)) (?w # ws)"
      using False w ih(2) by simp
    moreover have "list_all (\<lambda>wr. same_grid (snd wr) ref_img) (?w # ws)"
      using g ih(3) by simp
    ultimately show ?thesis by blast
  qed
qed

lemma process_study_ok:
  assumes c: "resample_contract lib"
    and ne: "snd grp \<noteq> []"
    and ref: "ref \<in> set (map fst stp)"
    and ok: "\<forall>t \<in> set (map fst stp).
               (\<exists>row. rows_with_label t (snd grp) = [row]) \<and>
               (\<exists>img. load_labelled lib pc (snd grp) t = Inr img)"
  shows "\<exists>ws dir. process_study lib stp ref pc grp st
                 = (st\<lparr>made_dirs := made_dirs st @ [dir], written := written st @ ws\<rparr>, Inr ()) \<and>
              study_outputs lib stp ref pc grp ws"
proof -
  obtain sid rows where grp: "grp = (sid, rows)" by (cases grp)
  from ne grp obtain first_row other_rows where rows: "rows = first_row # other_rows"
    by (cases rows) auto
  from ok ref grp obtain ref_row ref_img where
    u: "rows_with_label ref rows = [ref_row]" and l: "load_labelled lib pc rows ref = Inr ref_img"
    by auto
  have dg: "\<exists>slot. map_of stp t = Some slot" if "t \<in> set (map fst stp)" for t
  proof -
    from that have "map_of stp t \<noteq> None" by (simp add: map_of_eq_None_iff)
    then show ?thesis by auto
  qed
  from dg[OF ref] obtain ref_slot where d: "map_of stp ref = Some ref_slot" by blast
  let ?dir = "save_path_of pc (patient_id first_row) sid"
  let ?w = "(image_output_path ?dir ref_slot, ref_img)"
  let ?st = "st\<lparr>made_dirs := made_dirs st @ [?dir]\<rparr>\<lparr>written := written (st\<lparr>made_dirs := made_dirs st @ [?dir]\<rparr>) @ [?w]\<rparr>"
  have pre: "\<forall>t \<in> set (map fst stp). t \<noteq> ref \<longrightarrow>
               (\<exists>row. rows_with_label t rows = [row]) \<and>
               (\<exists>img. load_labelled lib pc rows t = Inr img) \<and> (\<exists>slot. map_of stp t = Some slot)"
    using ok dg grp by auto
  from resample_loop_ok[OF c pre, of ?dir ref_img ?st] obtain ws where
    rl: "resample_loop lib pc stp ref rows ?dir (reference_resampler ref_img) (map fst stp) ?st
           = (?st\<lparr>written := written ?st @ ws\<rparr>, Inr ())"
    and la: "list_all2 (resampled_write lib pc stp rows ?dir ref_img)
               (filter (\<lambda>t. t \<noteq> ref) (map fst stp)) ws"
    and sg: "list_all (\<lambda>wr. same_grid (snd wr) ref_img) ws"
    by blast
  have "process_study lib stp ref pc grp st
          = (st\<lparr>made_dirs := made_dirs st @ [?dir], written := written st @ (?w # ws)\<rparr>, Inr ())"
  proof -
    have f: "iloc_first rows = Inr first_row" by (simp add: rows iloc_first_def)
    have dd: "dict_get stp ref = Inr ref_slot" using d by (simp add: dict_get_map_of)
    show ?thesis using rl by (simp add: process_study_def grp f l dd Let_def)
  qed
  moreover have "study_outputs lib stp ref pc grp (?w # ws)"
    unfolding study_outputs_def
    using grp rows load_labelled_volume[OF u l] d la sg
    by (auto simp: same_grid_def save_path_of_def image_output_path_def)
  ultimately show ?thesis by blast
qed

lemma studies_loop_ok:
  assumes c: "resample_contract lib"
    and ref: "ref \<in> set (map fst stp)"
    and ok: "\<forall>grp \<in> set groups. snd grp \<noteq> [] \<and>
               (\<forall>t \<in> set (map fst stp).
                  (\<exists>row. rows_with_label t (snd grp) = [row]) \<and>
                  (\<exists>img. load_labelled lib pc (snd grp) t = Inr img))"
  shows "\<exists>final wss. studies_loop lib stp ref pc groups st = (final, Inr ()) \<and>
           written final = written st @ concat wss \<and>
           list_all2 (study_outputs lib stp ref pc) groups wss"
  using ok
proof (induction groups arbitrary: st)
  case Nil
  show ?case by simp
next
  case (Cons grp groups)
  from Cons.prems have ne: "snd grp \<noteq> []"
    and l: "\<forall>t \<in> set (map fst stp).
                  (\<exists>row. rows_with_label t (snd grp) = [row]) \<and>
                  (\<exists>img. load_labelled lib pc (snd grp) t = Inr img)"
    by auto
  from process_study_ok[OF c ne ref l, of st] obtain ws dir where
    p: "process_study lib stp ref pc grp st
          = (st\<lparr>made_dirs := made_dirs st @ [dir], written := written st @ ws\<rparr>, Inr ())"
    and so: "study_outputs lib stp ref pc grp ws"
    by blast
  let ?st = "st\<lparr>made_dirs := made_dirs st @ [dir], written := written st @ ws\<rparr>"
  from Cons.IH[of ?st] Cons.prems obtain final wss where
    ih: "studies_loop lib stp ref pc groups ?st = (final, Inr ())"
      "written final = written ?st @ concat wss"
      "list_all2 (study_outputs lib stp ref pc) groups wss"
    by auto
  have "studies_loop lib stp ref pc (grp # groups) st = (final, Inr ())"
    using p ih(1) by simp
  moreover have "written final = written st @ concat (ws # wss)"
    using ih(2) by simp
  moreover have "list_all2 (study_outputs lib stp ref pc) (grp # groups) (ws # wss)"
    using so ih(3) by simp
  ultimately show ?case by blast
qed

text \<open>Whatever happens, the loops only add writes.\<close>

lemma resample_loop_written:
  "resample_loop lib pc stp ref grp dir flt ks st = (st', res) \<Longrightarrow>
     \<exists>ws. written st' = written st @ ws"
proof (induction ks arbitrary: st)
  case Nil
  then show ?case by simp
next
  case (Cons t ks)
  show ?case
  proof (cases "t = ref")
    case True
    with Cons show ?thesis by simp
  next
    case False
    show ?thesis
    proof (cases "load_labelled lib pc grp t")
      case (Inl e)
      with Cons.prems False show ?thesis by simp
    next
      case img: (Inr img)
      show ?thesis
      proof (cases "ResampleExecute lib flt img")
        case (Inl e)
        with Cons.prems False img show ?thesis by simp
      next
        case r: (Inr r)
        show ?thesis
        proof (cases "dict_get stp t")
          case (Inl e)
          with Cons.prems False img r show ?thesis by simp
        next
          case (Inr slot)
          with Cons.prems False img r
          have "resample_loop lib pc stp ref grp dir flt ks
                  (st\<lparr>written := written st @ [(image_output_path dir slot, r)]\<rparr>) = (st', res)"
            by simp
          from Cons.IH[OF this] show ?thesis by auto
        qed
      qed
    qed
  qed
qed

lemma process_study_written:
  assumes "process_study lib stp ref pc grp st = (st', res)"
  shows "\<exists>ws. written st' = written st @ ws"
proof -
  obtain sid rows where grp: "grp = (sid, rows)" by (cases grp)
  show ?thesis
  proof (cases "iloc_first rows")
    case (Inl e)
    with assms grp show ?thesis by (simp add: process_study_def)
  next
    case f: (Inr first_row)
    show ?thesis
    proof (cases "load_labelled lib pc rows ref")
      case (Inl e)
      with assms grp f show ?thesis by (auto simp: process_study_def Let_def)
    next
      case l: (Inr ref_img)
      show ?thesis
      proof (cases "dict_get stp ref")
        case (Inl e)
        with assms grp f l show ?thesis by (auto simp: process_study_def Let_def)
      next
        case (Inr ref_slot)
        let ?st2 = "st\<lparr>made_dirs := made_dirs st @ [save_path_of pc (patient_id first_row) sid],
             written := written st @ [(image_output_path
               (save_path_of pc (patient_id first_row) sid) ref_slot, ref_img)]\<rparr>"
        from Inr assms grp f l have
          "resample_loop lib pc stp ref rows (save_path_of pc (patient_id first_row) sid)
             (reference_resampler ref_img) (map fst stp) ?st2 = (st', res)"
          by (simp add: process_study_def Let_def)
        from resample_loop_written[OF this] show ?thesis by auto
      qed
    qed
  qed
qed

lemma studies_loop_written:
  "studies_loop lib stp ref pc groups st = (st', res) \<Longrightarrow> \<exists>ws. written st' = written st @ ws"
proof (induction groups arbitrary: st)
  case Nil
  then show ?case by simp
next
  case (Cons grp groups)
  obtain st1 r1 where p: "process_study lib stp ref pc grp st = (st1, r1)"
    by (cases "process_study lib stp ref pc grp st")
  from process_study_written[OF p] obtain ws1 where w1: "written st1 = written st @ ws1"
    by blast
  show ?case
  proof (cases r1)
    case (Inl e)
    with Cons.prems p w1 show ?thesis by auto
  next
    case (Inr u)
    with Cons.prems p have "studies_loop lib stp ref pc groups st1 = (st', res)" by simp
    from Cons.IH[OF this] w1 show ?thesis by auto
  qed
qed

lemma studies_loop_append:
  "studies_loop lib stp ref pc (xs @ ys) st =
     (case studies_loop lib stp ref pc xs st of
        (st', Inl e) \<Rightarrow> (st', Inl e)
      | (st', Inr u) \<Rightarrow> studies_loop lib stp ref pc ys st')"
proof (induction xs arbitrary: st)
  case Nil
  show ?case by simp
next
  case (Cons x xs)
  show ?case
    by (cases "process_study lib stp ref pc x st") (auto simp: Cons.IH split: sum.splits)
qed


lemma consolidated_group:
  assumes wf: "wf_config cfg"
    and sel: "select_single_series_per_type cfg table = Inr metadata"
    and g: "grp \<in> set (groupby_study_id metadata)"
  shows "snd grp \<noteq> [] \<and> set (snd grp) \<subseteq> set metadata \<and>
         (\<forall>r \<in> set (snd grp). study_id r = fst grp) \<and>
         (\<forall>t \<in> set (required_labels cfg). \<exists>row. rows_with_label t (snd grp) = [row])"
proof -
  from g obtain sid where sid: "sid \<in> study_id ` set metadata"
    and grp: "grp = (sid, study_rows sid metadata)"
    by (auto simp: groupby_study_id_def study_rows_def)
  from sid have ne: "study_rows sid metadata \<noteq> []" by (simp add: study_rows_nonempty)
  then have c: "complete_for (required_labels cfg) (study_rows sid table)"
    and rows: "study_rows sid metadata = picks (required_labels cfg) (study_rows sid table)"
    by (auto simp: study_rows_select[OF sel] split: if_splits)
  from wf have d: "distinct (required_labels cfg)"
    by (simp add: wf_config_def required_labels_def)
  have "\<exists>row. rows_with_label t (study_rows sid metadata) = [row]"
    if t: "t \<in> set (required_labels cfg)" for t
    unfolding rows using rows_with_label_picks[OF d c t] by blast
  with ne grp show ?thesis by (auto simp: study_rows_def)
qed

lemma single_row_member:
  assumes "rows_with_label t rows = [row]"
  shows "row \<in> set rows"
proof -
  have "row \<in> set (rows_with_label t rows)" by (simp add: assms)
  then show ?thesis by (simp add: rows_with_label_def)
qed

text \<open>
  Claim C7, as amended. For a study of the consolidated table of a well-formed
  configuration such that every record of this study and of the studies before it
  (in the sorted order of the study ids, the order of the groups) decodes, and with a
  resampling primitive that keeps its contract: the writes of the engine contain, in
  one block, the outputs of the study described by \<open>study_outputs\<close>. They go to the
  directory \<open>os.path.join(processed root, patient/study/)\<close>: first the reference
  volume exactly as it was loaded, then for every other required label its volume
  resampled with nearest-neighbour interpolation onto the grid of the reference
  volume; every image written for the study has the size, spacing, origin and
  direction of the reference volume. This holds whether or not a later study fails;
  when every record of the table decodes, the engine returns without an exception.
\<close>

theorem reference_grid_resampling:
  assumes "wf_config cfg"
    and "select_single_series_per_type cfg table = Inr metadata"
    and "sid \<in> study_id ` set metadata"
    and "\<forall>r \<in> set metadata. study_id r \<le> sid \<longrightarrow> decodes lib paths_config r"
    and "resample_contract lib"
  shows "\<exists>final res pre ws post.
           process_and_save_studies lib metadata (series_to_process cfg) (reference_series cfg)
               paths_config st = (final, res) \<and>
           written final = written st @ pre @ ws @ post \<and>
           study_outputs lib (series_to_process cfg) (reference_series cfg) paths_config
             (sid, study_rows sid metadata) ws \<and>
           ((\<forall>r \<in> set metadata. decodes lib paths_config r) \<longrightarrow> res = Inr ())"
proof -
  let ?stp = "series_to_process cfg"
  let ?ref = "reference_series cfg"
  let ?f = "\<lambda>s. (s, filter (\<lambda>r. study_id r = s) metadata)"
  let ?sids = "sort (remdups (map study_id metadata))"
  let ?loop = "studies_loop lib ?stp ?ref paths_config"
  from assms(1) have ref: "?ref \<in> set (map fst ?stp)" by (simp add: wf_config_def)
  from assms(3) have ne: "metadata \<noteq> []" by auto
  have groups: "groupby_study_id metadata = map ?f ?sids" by (simp add: groupby_study_id_def)
  have run: "process_and_save_studies lib metadata ?stp ?ref paths_config st
               = ?loop (map ?f ?sids) st"
    using ne by (simp add: process_and_save_studies_def groups)
  have ok: "snd grp \<noteq> [] \<and>
      (\<forall>t \<in> set (map fst ?stp).
         (\<exists>row. rows_with_label t (snd grp) = [row]) \<and>
         (\<exists>img. load_labelled lib paths_config (snd grp) t = Inr img))"
    if g: "grp \<in> set (map ?f ?sids)"
      and dec: "\<forall>r \<in> set (snd grp). decodes lib paths_config r" for grp
  proof (intro conjI ballI)
    from g have g': "grp \<in> set (groupby_study_id metadata)" by (simp only: groups)
    note cg = consolidated_group[OF assms(1,2) g']
    from cg show "snd grp \<noteq> []" by simp
    fix t assume "t \<in> set (map fst ?stp)"
    then have "t \<in> set (required_labels cfg)" by (simp add: required_labels_def)
    with cg obtain row where u: "rows_with_label t (snd grp) = [row]" by blast
    then show "\<exists>row. rows_with_label t (snd grp) = [row]" by blast
    from single_row_member[OF u] dec have "decodes lib paths_config row" by blast
    with u show "\<exists>img. load_labelled lib paths_config (snd grp) t = Inr img"
      by (rule load_labelled_decodes)
  qed
  from assms(3) have "sid \<in> set ?sids" by simp
  then obtain xs ys where split: "?sids = xs @ sid # ys" by (blast dest: split_list)
  have "sorted ?sids" by simp
  then have le: "\<forall>x \<in> set xs. x \<le> sid" unfolding split by (auto simp: sorted_append)
  let ?pre = "map ?f xs @ [?f sid]"
  have pre_ok: "\<forall>grp \<in> set ?pre. snd grp \<noteq> [] \<and>
      (\<forall>t \<in> set (map fst ?stp).
         (\<exists>row. rows_with_label t (snd grp) = [row]) \<and>
         (\<exists>img. load_labelled lib paths_config (snd grp) t = Inr img))"
  proof
    fix grp assume g: "grp \<in> set ?pre"
    then obtain s where s: "grp = ?f s" and sle: "s \<le> sid" and sin: "s \<in> set ?sids"
      using le split by auto
    from s have "\<forall>r \<in> set (snd grp). study_id r = s \<and> r \<in> set metadata" by simp
    with sle assms(4) have dec: "\<forall>r \<in> set (snd grp). decodes lib paths_config r" by auto
    from s sin have "grp \<in> set (map ?f ?sids)" by simp
    from ok[OF this dec] show "snd grp \<noteq> [] \<and>
      (\<forall>t \<in> set (map fst ?stp).
         (\<exists>row. rows_with_label t (snd grp) = [row]) \<and>
         (\<exists>img. load_labelled lib paths_config (snd grp) t = Inr img))" .
  qed
  from studies_loop_ok[OF assms(5) ref pre_ok, of st] obtain st1 wss where
    p1: "?loop ?pre st = (st1, Inr ())"
    and w1: "written st1 = written st @ concat wss"
    and l1: "list_all2 (study_outputs lib ?stp ?ref paths_config) ?pre wss"
    by blast
  from l1 obtain wss1 ws where wss: "wss = wss1 @ [ws]"
    and so: "study_outputs lib ?stp ?ref paths_config (?f sid) ws"
    by (auto simp: list_all2_append1 list_all2_Cons1)
  obtain final res where p2: "?loop (map ?f ys) st1 = (final, res)"
    by (cases "?loop (map ?f ys) st1")
  from studies_loop_written[OF p2] obtain post where w2: "written final = written st1 @ post"
    by blast
  have dec: "map ?f ?sids = ?pre @ map ?f ys" by (simp add: split)
  have "?loop (?pre @ map ?f ys) st =
          (case ?loop ?pre st of
             (st', Inl e) \<Rightarrow> (st', Inl e)
           | (st', Inr u) \<Rightarrow> ?loop (map ?f ys) st')"
    by (rule studies_loop_append)
  then have "?loop (?pre @ map ?f ys) st = (final, res)"
    by (simp only: p1 p2 prod.case sum.case)
  then have whole: "?loop (map ?f ?sids) st = (final, res)"
    by (simp only: dec)
  have all: "res = Inr ()" if dec: "\<forall>r \<in> set metadata. decodes lib paths_config r"
  proof -
    have "\<forall>grp \<in> set (map ?f ?sids). snd grp \<noteq> [] \<and>
      (\<forall>t \<in> set (map fst ?stp).
         (\<exists>row. rows_with_label t (snd grp) = [row]) \<and>
         (\<exists>img. load_labelled lib paths_config (snd grp) t = Inr img))"
    proof
      fix grp assume g: "grp \<in> set (map ?f ?sids)"
      then have "\<forall>r \<in> set (snd grp). r \<in> set metadata" by auto
      with dec have "\<forall>r \<in> set (snd grp). decodes lib paths_config r" by blast
      from ok[OF g this] show "snd grp \<noteq> [] \<and>
      (\<forall>t \<in> set (map fst ?stp).
         (\<exists>row. rows_with_label t (snd grp) = [row]) \<and>
         (\<exists>img. load_labelled lib paths_config (snd grp) t = Inr img))" .
    qed
    from studies_loop_ok[OF assms(5) ref this, of st] whole show ?thesis by auto
  qed
  have w: "written final = written st @ concat wss1 @ ws @ post"
    using w1 w2 wss by simp
  have so': "study_outputs lib ?stp ?ref paths_config (sid, study_rows sid metadata) ws"
    using so by (simp add: study_rows_def)
  have r: "process_and_save_studies lib metadata ?stp ?ref paths_config st = (final, res)"
    using run whole by simp
  have "process_and_save_studies lib metadata ?stp ?ref paths_config st = (final, res) \<and>
        written final = written st @ concat wss1 @ ws @ post \<and>
        study_outputs lib ?stp ?ref paths_config (sid, study_rows sid metadata) ws \<and>
        ((\<forall>r \<in> set metadata. decodes lib paths_config r) \<longrightarrow> res = Inr ())"
    using r w so' all by blast
  then show ?thesis by blast
qed


lemma example_contract: "resample_contract example_lib"
  by (simp add: resample_contract_def example_lib_def)

lemma example_decodes_B: "decodes example_lib (paths example_config) (example_row sid label ''B'')"
  by (simp add: decodes_def example_row_def example_lib_def example_config_def os_path_join_def)

lemma example_decodes_C: "decodes example_lib (paths example_config) (example_row sid label ''C'')"
  by (simp add: decodes_def example_row_def example_lib_def example_config_def os_path_join_def)

lemma example_order: "\<not> (''S2'' \<le> ''S1'')"
  by code_simp

lemma example_later_failure_consolidated:
  "select_single_series_per_type example_config example_later_failure = Inr example_later_failure"
  by code_simp

lemma example_later_failure_run:
  "process_and_save_studies example_lib example_later_failure (series_to_process example_config)
       (reference_series example_config) (paths example_config) empty_out
     = (\<lparr> made_dirs = [''dicom_processed/P1/S1/'', ''dicom_processed/P1/S2/''],
          written = [(''dicom_processed/P1/S1/image_t1w.mha'', example_image),
                     (''dicom_processed/P1/S1/image_t2w.mha'', example_resampled)] \<rparr>,
        Inl (RuntimeError ''decode failed''))"
  by code_simp

theorem reference_grid_resampling_witness:
  "wf_config example_config \<and>
   select_single_series_per_type example_config example_later_failure
     = Inr example_later_failure \<and>
   resample_contract example_lib \<and>
   decodes example_lib (paths example_config) (example_row ''S1'' ''T1'' ''B'') \<and>
   decodes example_lib (paths example_config) (example_row ''S1'' ''T2'' ''C'') \<and>
   process_and_save_studies example_lib example_later_failure (series_to_process example_config)
       (reference_series example_config) (paths example_config) empty_out
     = (\<lparr> made_dirs = [''dicom_processed/P1/S1/'', ''dicom_processed/P1/S2/''],
          written = [(''dicom_processed/P1/S1/image_t1w.mha'', example_image),
                     (''dicom_processed/P1/S1/image_t2w.mha'', example_resampled)] \<rparr>,
        Inl (RuntimeError ''decode failed'')) \<and>
   (\<exists>pre ws post.
      [(''dicom_processed/P1/S1/image_t1w.mha'', example_image),
       (''dicom_processed/P1/S1/image_t2w.mha'', example_resampled)] = pre @ ws @ post \<and>
      study_outputs example_lib (series_to_process example_config)
        (reference_series example_config) (paths example_config)
        (''S1'', study_rows ''S1'' example_later_failure) ws)"
proof -
  have sid: "''S1'' \<in> study_id ` set example_later_failure"
    by (simp add: example_later_failure_def example_row_def)
  have dec: "\<forall>r \<in> set example_later_failure.
      study_id r \<le> ''S1'' \<longrightarrow> decodes example_lib (paths example_config) r"
    using example_order
    by (simp add: example_later_failure_def example_decodes_B example_decodes_C)
       (simp add: example_row_def)
  from reference_grid_resampling[where paths_config = "paths example_config"
      and lib = example_lib and st = empty_out,
      OF example_config_wf example_later_failure_consolidated sid dec example_contract]
  obtain final res pre ws post where
    run: "process_and_save_studies example_lib example_later_failure
            (series_to_process example_config) (reference_series example_config)
            (paths example_config) empty_out = (final, res)"
    and w: "written final = written empty_out @ pre @ ws @ post"
    and so: "study_outputs example_lib (series_to_process example_config)
        (reference_series example_config) (paths example_config)
        (''S1'', study_rows ''S1'' example_later_failure) ws"
    by blast
  from run example_later_failure_run have
    "final = \<lparr> made_dirs = [''dicom_processed/P1/S1/'', ''dicom_processed/P1/S2/''],
          written = [(''dicom_processed/P1/S1/image_t1w.mha'', example_image),
                     (''dicom_processed/P1/S1/image_t2w.mha'', example_resampled)] \<rparr>"
    by simp
  with w have "[(''dicom_processed/P1/S1/image_t1w.mha'', example_image),
       (''dicom_processed/P1/S1/image_t2w.mha'', example_resampled)] = pre @ ws @ post"
    by (simp add: empty_out_def)
  with so example_config_wf example_later_failure_consolidated example_contract
    example_decodes_B example_decodes_C example_later_failure_run
  show ?thesis by blast
qed

text \<open>
  The claim as written fails: it promises the outputs for every consolidated study,
  but the loop over the studies has no guard, so the first series that does not
  decode ends the run. In the table below, study S0 comes first and its reference
  series does not decode; study S1 is consolidated, both of its series decode, and
  nothing is written for it.
\<close>

lemma example_two_studies_consolidated:
  "select_single_series_per_type example_config example_two_studies = Inr example_two_studies"
  by code_simp

lemma example_two_studies_run:
  "process_and_save_studies example_lib example_two_studies (series_to_process example_config)
       (reference_series example_config) (paths example_config) empty_out
     = (\<lparr> made_dirs = [''dicom_processed/P1/S0/''], written = [] \<rparr>,
        Inl (RuntimeError ''decode failed''))"
  by code_simp

theorem later_study_gets_no_output:
  "select_single_series_per_type example_config example_two_studies = Inr example_two_studies \<and>
   study_rows ''S1'' example_two_studies
     = [example_row ''S1'' ''T1'' ''B'', example_row ''S1'' ''T2'' ''C''] \<and>
   decodes example_lib (paths example_config) (example_row ''S1'' ''T1'' ''B'') \<and>
   decodes example_lib (paths example_config) (example_row ''S1'' ''T2'' ''C'') \<and>
   resample_contract example_lib \<and>
   process_and_save_studies example_lib example_two_studies (series_to_process example_config)
       (reference_series example_config) (paths example_config) empty_out
     = (\<lparr> made_dirs = [''dicom_processed/P1/S0/''], written = [] \<rparr>,
        Inl (RuntimeError ''decode failed''))"
proof -
  have "study_rows ''S1'' example_two_studies
     = [example_row ''S1'' ''T1'' ''B'', example_row ''S1'' ''T2'' ''C'']"
    by (simp add: study_rows_def example_two_studies_def example_row_def)
  with example_two_studies_consolidated example_decodes_B example_decodes_C example_contract
    example_two_studies_run
  show ?thesis by blast
qed

end
